theory Spec2Isabelle
  imports Main "HOL-Library.Char_ord" "HOL-Library.List_Lexorder"
begin

section \<open>Calendar booking: slot conversion, navigation and booking reconciliation\<close>

text \<open>
  A shallow embedding of \<^verbatim>\<open>client/src/components/CalendarBooking.tsx\<close>. JavaScript strings
  are modelled as \<^typ>\<open>string\<close>, numbers that the code only uses as integers as \<^typ>\<open>nat\<close> or
  \<^typ>\<open>int\<close>, thrown errors as values, and React state as a record that every handler takes
  and returns.
\<close>

subsection \<open>String primitives of the language\<close>

definition isDigit :: "char \<Rightarrow> bool" where
  "isDigit c = (c \<in> set ''0123456789'')"

text \<open>The value of a decimal digit: its code unit less that of \<^verbatim>\<open>0\<close>.\<close>

definition digitVal :: "char \<Rightarrow> nat" where
  "digitVal c = of_char c - of_char (CHR ''0'')"

definition digitChar :: "nat \<Rightarrow> char" where
  "digitChar n = ''0123456789'' ! (n mod 10)"

text \<open>The value of a run of decimal digits, most significant digit first.\<close>

definition digitsVal :: "string \<Rightarrow> nat" where
  "digitsVal s = foldl (\<lambda>a c. 10 * a + digitVal c) 0 s"

text \<open>\<^verbatim>\<open>parseInt(s, 10)\<close> where \<open>s\<close> is a capture of \<^verbatim>\<open>\d{2}\<close>: always a number.\<close>

definition parseInt :: "string \<Rightarrow> nat" where
  "parseInt s = digitsVal s"

text \<open>
  \<^verbatim>\<open>Number(s)\<close> on the pieces of a time of day. The empty string is \<open>0\<close> and a run of decimal
  digits is its value. \<open>None\<close> stands for every other string: JavaScript reads some of them
  as numbers too (signs, fractions, exponents, surrounding blanks) and the rest as \<^verbatim>\<open>NaN\<close>;
  a formatted time of day contains none of them, and the model does not tell them apart.
\<close>

definition Number :: "string \<Rightarrow> nat option" where
  "Number s = (if list_all isDigit s then Some (digitsVal s) else None)"

text \<open>\<^verbatim>\<open>n.toString()\<close> and \<^verbatim>\<open>String(n)\<close> for a non-negative integer.\<close>

fun toString :: "nat \<Rightarrow> string" where
  "toString n = (if n < 10 then [digitChar n] else toString (n div 10) @ [digitChar n])"

declare toString.simps [simp del]

definition padStart2 :: "string \<Rightarrow> string" where
  "padStart2 s = replicate (2 - length s) (CHR ''0'') @ s"

definition startsWith :: "string \<Rightarrow> string \<Rightarrow> bool" where
  "startsWith s p = (take (length p) s = p)"

text \<open>\<^verbatim>\<open>s.split(sep)\<close> for a separator that is not empty.\<close>

function splitBy :: "string \<Rightarrow> string \<Rightarrow> string list" where
  "splitBy sep [] = [[]]"
| "splitBy sep (c # cs) =
     (if sep \<noteq> [] \<and> startsWith (c # cs) sep then [] # splitBy sep (drop (length sep) (c # cs))
      else (case splitBy sep cs of [] \<Rightarrow> [[c]] | p # ps \<Rightarrow> (c # p) # ps))"
  by pat_completeness auto
termination
  by (relation "measure (\<lambda>(sep, s). length s)") auto

text \<open>\<^verbatim>\<open>s.includes(sub)\<close>.\<close>

fun includesStr :: "string \<Rightarrow> string \<Rightarrow> bool" where
  "includesStr [] sub = (sub = [])"
| "includesStr (c # cs) sub = (startsWith (c # cs) sub \<or> includesStr cs sub)"

subsection \<open>Data model\<close>

record TimeSlot =
  startTime :: string
  endTime :: string
  available :: bool
  originalGHLTime :: "string option"

text \<open>The supported viewer timezones (the \<^verbatim>\<open>value\<close> fields of \<^verbatim>\<open>TIMEZONES\<close>).\<close>

definition TIMEZONES :: "string list" where
  "TIMEZONES =
     [''America/Mexico_City'', ''America/Chihuahua'', ''America/Tijuana'', ''America/New_York'',
      ''America/Los_Angeles'', ''America/Chicago'', ''Europe/Madrid'', ''Europe/London'']"

subsection \<open>The runtime: dates and the timezone database\<close>

text \<open>
  \<^verbatim>\<open>Date\<close> and \<^verbatim>\<open>Intl\<close> belong to the JavaScript runtime, not to the repository, so the
  model takes them as parameters:
  \<^item> \<open>dateParse s\<close> is \<^verbatim>\<open>new Date(s).getTime()\<close> in milliseconds, \<open>None\<close> for \<^verbatim>\<open>NaN\<close>;
  \<^item> \<open>zone tz\<close> is the timezone database: \<open>None\<close> for a name the runtime rejects with a
    \<^verbatim>\<open>RangeError\<close>, otherwise the UTC offset in seconds at each instant (in milliseconds);
  \<^item> \<open>hourCycle24\<close> says whether the runtime prints midnight as hour \<open>24\<close> under
    \<^verbatim>\<open>hour12: false\<close> (older engines do for the \<^verbatim>\<open>en-US\<close> locale) or as hour \<open>0\<close>.
\<close>

record runtime =
  dateParse :: "string \<Rightarrow> int option"
  zone :: "string \<Rightarrow> (int \<Rightarrow> int) option"
  hourCycle24 :: bool

text \<open>\<^verbatim>\<open>!isNaN(new Date(s).getTime())\<close>.\<close>

definition validDate :: "runtime \<Rightarrow> string \<Rightarrow> bool" where
  "validDate rt s = (dateParse rt s \<noteq> None)"

subsection \<open>Display-side end time\<close>

text \<open>
  \<^verbatim>\<open>getEndTime\<close>: the end of a 45 minute slot from the displayed start time, as hours and
  minutes. \<open>None\<close> is a start time with fewer than two pieces or with a piece that
  \<open>Number\<close> above does not read; the times of day that the conversion produces have three
  pieces of two digits.
\<close>

definition getEndTime :: "string \<Rightarrow> string option" where
  "getEndTime start =
     (if start = [] then Some []
      else (case map Number (splitBy '':'' start) of
              Some hours # Some minutes # _ \<Rightarrow>
                (let totalMinutes = hours * 60 + minutes + 45;
                     endHours = totalMinutes div 60;
                     endMinutes = totalMinutes mod 60
                 in Some (padStart2 (toString endHours) @ '':'' @ padStart2 (toString endMinutes)))
            | _ \<Rightarrow> None))"

text \<open>
  \<^verbatim>\<open>parseInt(s, 10)\<close> on a piece of a time: the value of its leading run of digits. \<open>None\<close>
  stands for a piece that does not start with a digit, which JavaScript reads as \<^verbatim>\<open>NaN\<close>
  or, after blanks or a sign, as a number; a formatted time has no such piece.
\<close>

definition parseIntLeading :: "string \<Rightarrow> nat option" where
  "parseIntLeading s =
     (let ds = takeWhile isDigit s in if ds = [] then None else Some (digitsVal ds))"

text \<open>\<^verbatim>\<open>formatTimeForDisplay\<close>: the 12-hour rendering of a time of day.\<close>

definition formatTimeForDisplay :: "string \<Rightarrow> string option" where
  "formatTimeForDisplay timeString =
     (case splitBy '':'' timeString of
        [] \<Rightarrow> None
      | p0 # rest \<Rightarrow>
         (case parseIntLeading p0 of
            None \<Rightarrow> None
          | Some hours \<Rightarrow>
             (let minutes = (case rest of [] \<Rightarrow> ''00'' | p1 # _ \<Rightarrow> p1);
                  hours12 = padStart2 (toString (if hours mod 12 = 0 then 12 else hours mod 12));
                  suffix = (if hours \<ge> 12 then ''p. m.'' else ''a. m.'')
              in Some (hours12 @ '':'' @ minutes @ '' '' @ suffix))))"

subsection \<open>Booking request\<close>

text \<open>
  The pattern \<^verbatim>\<open>/^(\d{4}-\d{2}-\d{2})T(\d{2}):(\d{2}):(\d{2})([+-]\d{2}:\d{2})$/\<close>, one
  item per character.
\<close>

datatype pat = D | Lit char | Sign

fun accepts :: "pat \<Rightarrow> char \<Rightarrow> bool" where
  "accepts D c = isDigit c"
| "accepts (Lit l) c = (c = l)"
| "accepts Sign c = (c = CHR ''+'' \<or> c = CHR ''-'')"

fun matches :: "pat list \<Rightarrow> string \<Rightarrow> bool" where
  "matches [] s = (s = [])"
| "matches (p # ps) [] = False"
| "matches (p # ps) (c # cs) = (accepts p c \<and> matches ps cs)"

definition ghlPattern :: "pat list" where
  "ghlPattern =
     [D, D, D, D, Lit (CHR ''-''), D, D, Lit (CHR ''-''), D, D, Lit (CHR ''T''),
      D, D, Lit (CHR '':''), D, D, Lit (CHR '':''), D, D,
      Sign, D, D, Lit (CHR '':''), D, D]"

text \<open>The five capture groups: date, hour, minute, second, offset.\<close>

definition ghlMatch :: "string \<Rightarrow> (string \<times> string \<times> string \<times> string \<times> string) option" where
  "ghlMatch s =
     (if matches ghlPattern s
      then Some (take 10 s, take 2 (drop 11 s), take 2 (drop 14 s), take 2 (drop 17 s), drop 19 s)
      else None)"

record 's requestData =
  req_contactId :: string
  req_startTime :: string
  req_endTime :: string
  req_title :: string
  req_description :: string
  req_surveyData :: 's

text \<open>
  The errors \<^verbatim>\<open>handleBooking\<close> throws before it calls the appointment endpoint, in the order
  of the source: no contact, no slot or no provider timestamp on it, a provider timestamp
  that the pattern rejects, a start or end that \<^verbatim>\<open>Date\<close> cannot read.
\<close>

datatype bookingError =
  NoContact | MissingProviderTimestamp | MalformedProviderTimestamp | InvalidDateTime

text \<open>
  What one run of \<^verbatim>\<open>handleBooking\<close> does up to its network call: nothing (the early
  return), an error thrown and caught before any call, or the POST of a request.
\<close>

datatype 's bookingOutcome = NoAction | Failed bookingError | Submitted "'s requestData"

text \<open>
  \<^verbatim>\<open>handleBooking\<close>. After the runtime come the component's props, then the state the
  handler reads: \<^verbatim>\<open>selectedDate\<close>, \<^verbatim>\<open>selectedTime\<close> and \<^verbatim>\<open>availableSlots\<close>.
\<close>

definition handleBooking ::
  "runtime \<Rightarrow> string \<Rightarrow> string \<Rightarrow> string \<Rightarrow> 's \<Rightarrow>
   string \<Rightarrow> string \<Rightarrow> TimeSlot list \<Rightarrow> 's bookingOutcome" where
  "handleBooking rt contactId businessName managerName surveyData
                 selDate selTime slots =
     (if selDate = [] \<or> selTime = [] then NoAction
      else if contactId = [] then Failed NoContact
      else (case find (\<lambda>slot. startTime slot = selTime) slots of
              None \<Rightarrow> Failed MissingProviderTimestamp
            | Some selectedSlot \<Rightarrow>
               (case originalGHLTime selectedSlot of
                  None \<Rightarrow> Failed MissingProviderTimestamp
                | Some ghlStartTime \<Rightarrow>
                   if ghlStartTime = [] then Failed MissingProviderTimestamp
                   else (case ghlMatch ghlStartTime of
                           None \<Rightarrow> Failed MalformedProviderTimestamp
                         | Some (ghlDate, ghlHour, ghlMin, ghlSec, ghlOffsetStr) \<Rightarrow>
                            (let startMinutes = parseInt ghlHour * 60 + parseInt ghlMin;
                                 endMinutes = startMinutes + 45;
                                 endHours = endMinutes div 60;
                                 endMins = endMinutes mod 60;
                                 endHourStr = padStart2 (toString (endHours mod 24));
                                 endMinStr = padStart2 (toString endMins);
                                 startT = ghlStartTime;
                                 endT = ghlDate @ ''T'' @ endHourStr @ '':'' @ endMinStr @ '':''
                                          @ ghlSec @ ghlOffsetStr
                             in if \<not> validDate rt startT \<or> \<not> validDate rt endT
                                then Failed InvalidDateTime
                                else Submitted
                                  \<lparr>req_contactId = contactId,
                                   req_startTime = startT,
                                   req_endTime = endT,
                                   req_title = ''Kickoff - '' @ businessName,
                                   req_description = ''Videollamada de kickoff con '' @ managerName
                                                       @ '' de '' @ businessName,
                                   req_surveyData = surveyData\<rparr>)))))"

subsection \<open>Timezone offsets\<close>

text \<open>The hour, minute and second fields of a wall clock given in seconds.\<close>

definition hourOf :: "runtime \<Rightarrow> int \<Rightarrow> int" where
  "hourOf rt w = (let h = (w div 3600) mod 24 in if hourCycle24 rt \<and> h = 0 then 24 else h)"

definition minuteOf :: "int \<Rightarrow> int" where
  "minuteOf w = (w div 60) mod 60"

definition secondOf :: "int \<Rightarrow> int" where
  "secondOf w = w mod 60"

text \<open>
  \<^verbatim>\<open>getTimezoneOffset\<close>: the same instant is formatted under UTC and under the timezone, and
  the hour and minute parts are subtracted. \<open>None\<close> is the \<^verbatim>\<open>RangeError\<close> of the
  formatter's constructor.
\<close>

definition getTimezoneOffset :: "runtime \<Rightarrow> string \<Rightarrow> int \<Rightarrow> int option" where
  "getTimezoneOffset rt timezone date =
     (case zone rt timezone of
        None \<Rightarrow> None
      | Some off \<Rightarrow>
         (let utcWall = date div 1000;
              tzWall = date div 1000 + off date;
              utcHour = hourOf rt utcWall;
              utcMin = minuteOf utcWall;
              tzHour = hourOf rt tzWall;
              tzMin = minuteOf tzWall;
              utcMinutes = utcHour * 60 + utcMin;
              tzMinutes = tzHour * 60 + tzMin;
              diff = tzMinutes - utcMinutes;
              diff1 = (if diff > 12 * 60 then diff - 24 * 60 else diff);
              diff2 = (if diff1 < - (12 * 60) then diff1 + 24 * 60 else diff1)
          in Some diff2))"

subsection \<open>Provider slots to display slots\<close>

text \<open>
  \<^verbatim>\<open>slotDate.toLocaleString('en-US', {timeZone, hour12: false, hour, minute, second})\<close>: an
  invalid date prints as \<^verbatim>\<open>Invalid Date\<close> before the timezone is looked at; an unknown
  timezone throws (\<open>None\<close>).
\<close>

definition toLocaleTime :: "runtime \<Rightarrow> int option \<Rightarrow> string \<Rightarrow> string option" where
  "toLocaleTime rt slotDate timeZone =
     (case slotDate of
        None \<Rightarrow> Some ''Invalid Date''
      | Some t \<Rightarrow>
         (case zone rt timeZone of
            None \<Rightarrow> None
          | Some off \<Rightarrow>
             (let w = t div 1000 + off t
              in Some (padStart2 (toString (nat (hourOf rt w))) @ '':''
                       @ padStart2 (toString (nat (minuteOf w))) @ '':''
                       @ padStart2 (toString (nat (secondOf w)))))))"

text \<open>\<^verbatim>\<open>timeInUserTz.split(', ')[1] || timeInUserTz\<close>.\<close>

definition timePartOf :: "string \<Rightarrow> string" where
  "timePartOf timeInUserTz =
     (case splitBy '', '' timeInUserTz of
        _ # p # _ \<Rightarrow> (if p \<noteq> [] then p else timeInUserTz)
      | _ \<Rightarrow> timeInUserTz)"

text \<open>
  The body of the \<^verbatim>\<open>daySlots.map\<close> callback, which the range fetch and the single-date fetch
  both contain word for word.
\<close>

definition toTimeSlot :: "runtime \<Rightarrow> string \<Rightarrow> string \<Rightarrow> TimeSlot option" where
  "toTimeSlot rt selectedTz slotTime =
     (case toLocaleTime rt (dateParse rt slotTime) selectedTz of
        None \<Rightarrow> None
      | Some timeInUserTz \<Rightarrow>
         (let timePart = timePartOf timeInUserTz
          in Some \<lparr>startTime = timePart, endTime = timePart, available = True,
                   originalGHLTime = Some slotTime\<rparr>))"

definition convertSlots :: "runtime \<Rightarrow> string \<Rightarrow> string list \<Rightarrow> TimeSlot list option" where
  "convertSlots rt selectedTz daySlots = those (map (toTimeSlot rt selectedTz) daySlots)"

text \<open>
  One value of the provider's reply, as \<^verbatim>\<open>data[dateKey]?.slots || []\<close> reads it: nothing
  usable (the value is null, or has no \<^verbatim>\<open>slots\<close>, or a falsy one), a list of timestamps,
  or something else that is truthy, on which \<^verbatim>\<open>.map\<close> throws.
\<close>

datatype dayEntry = NoSlots | SlotList "string list" | NotAList

fun daySlotsOf :: "dayEntry \<Rightarrow> string list option" where
  "daySlotsOf NoSlots = Some []"
| "daySlotsOf (SlotList ss) = Some ss"
| "daySlotsOf NotAList = None"

text \<open>
  The reply is an object from date keys to such values, kept as an association list (a
  parsed object has each key once); \<^verbatim>\<open>Object.keys(data)\<close> is the list of its keys.
  \<open>slotStrings\<close> is
  \<^verbatim>\<open>data[dateKey]?.slots || []\<close>, with \<open>None\<close> when the \<^verbatim>\<open>.map\<close> that follows throws.
\<close>

definition slotStrings :: "(string \<times> dayEntry) list \<Rightarrow> string \<Rightarrow> string list option" where
  "slotStrings data dateKey =
     (case map_of data dateKey of None \<Rightarrow> Some [] | Some e \<Rightarrow> daySlotsOf e)"

text \<open>
  The loop \<^verbatim>\<open>Object.keys(data).forEach\<close> that fills the local \<^verbatim>\<open>slotsMap\<close>. \<open>None\<close>: an
  exception left the loop, and the local map is lost with it.
\<close>

definition buildSlotsMap ::
  "runtime \<Rightarrow> string \<Rightarrow> (string \<times> dayEntry) list \<Rightarrow> (string \<times> TimeSlot list) list option" where
  "buildSlotsMap rt selectedTz data =
     those (map (\<lambda>dateKey.
                   case slotStrings data dateKey of
                     None \<Rightarrow> None
                   | Some daySlots \<Rightarrow>
                      (case convertSlots rt selectedTz daySlots of
                         None \<Rightarrow> None
                       | Some ts \<Rightarrow> Some (dateKey, ts))) (map fst data))"

subsection \<open>Component state\<close>

text \<open>
  A local calendar date, as the fields of a \<^verbatim>\<open>Date\<close> (month index from 0, day of the
  month from 1 and within the month). The time of day, which month navigation carries
  along and never reads, is left out.
\<close>

record jsDate =
  fullYear :: int
  monthIndex :: nat
  dayOfMonth :: nat

record state =
  selectedDate :: string
  selectedTime :: string
  availableSlots :: "TimeSlot list"
  allSlots :: "(string \<times> TimeSlot list) list"
  loading :: bool
  initialLoading :: bool
  booking :: bool
  booked :: bool
  selectedTimezone :: string
  currentMonth :: jsDate
  toasts :: "string list"

text \<open>\<^verbatim>\<open>allSlots[d]?.length ?? 0\<close> is the length of this list.\<close>

definition slotsAt :: "(string \<times> TimeSlot list) list \<Rightarrow> string \<Rightarrow> TimeSlot list" where
  "slotsAt m d = (case map_of m d of None \<Rightarrow> [] | Some ts \<Rightarrow> ts)"

text \<open>The state of the first render; \<open>today\<close> is the \<^verbatim>\<open>new Date()\<close> of that moment.\<close>

definition initialState :: "jsDate \<Rightarrow> state" where
  "initialState today =
     \<lparr>selectedDate = [], selectedTime = [], availableSlots = [], allSlots = [],
      loading = False, initialLoading = True, booking = False, booked = False,
      selectedTimezone = [], currentMonth = today, toasts = []\<rparr>"

subsection \<open>Fetching slots\<close>

text \<open>The four ways the awaited reply of \<^verbatim>\<open>/api/calendar/slots\<close> can turn out.\<close>

datatype response =
  FetchRejected | NotOk | JsonRejected | Json "(string \<times> dayEntry) list"

text \<open>
  What the continuation of a started fetch can read after its \<^verbatim>\<open>await\<close>: the local constant
  \<^verbatim>\<open>tzAtStart\<close>, and the name \<^verbatim>\<open>selectedTimezone\<close>, which is the constant of the render
  that created this function value, not the component's current state.
\<close>

record fetchCall =
  tzAtStart :: string
  closureTimezone :: string

text \<open>
  \<^verbatim>\<open>fetchAllAvailableSlots\<close> up to its first \<^verbatim>\<open>await\<close>. The argument is the
  \<^verbatim>\<open>selectedTimezone\<close> of the render whose function is called. The start and end
  timestamps of the request have no part in what is stored and are left out.
\<close>

definition fetchAllAvailableSlots_start :: "string \<Rightarrow> state \<Rightarrow> state \<times> fetchCall" where
  "fetchAllAvailableSlots_start renderTz st =
     (st\<lparr>initialLoading := True\<rparr>, \<lparr>tzAtStart = renderTz, closureTimezone = renderTz\<rparr>)"

text \<open>\<^verbatim>\<open>fetchAllAvailableSlots\<close> from the reply on, applied to the state of that moment.\<close>

definition fetchAllAvailableSlots_resolve ::
  "runtime \<Rightarrow> fetchCall \<Rightarrow> response \<Rightarrow> state \<Rightarrow> state" where
  "fetchAllAvailableSlots_resolve rt call resp st =
     (let failed = st\<lparr>toasts := toasts st @ [''Advertencia''], initialLoading := False\<rparr>
      in case resp of
           FetchRejected \<Rightarrow> failed
         | NotOk \<Rightarrow> failed
         | JsonRejected \<Rightarrow> failed
         | Json data \<Rightarrow>
            if tzAtStart call \<noteq> closureTimezone call then st\<lparr>initialLoading := False\<rparr>
            else (case buildSlotsMap rt (closureTimezone call) data of
                    None \<Rightarrow> failed
                  | Some slotsMap \<Rightarrow> st\<lparr>allSlots := slotsMap, initialLoading := False\<rparr>))"

text \<open>\<^verbatim>\<open>fetchAvailableSlots(date)\<close>, in the same two parts.\<close>

definition fetchAvailableSlots_start :: "string \<Rightarrow> state \<Rightarrow> state \<times> fetchCall" where
  "fetchAvailableSlots_start renderTz st =
     (st\<lparr>loading := True\<rparr>, \<lparr>tzAtStart = renderTz, closureTimezone = renderTz\<rparr>)"

definition fetchAvailableSlots_resolve ::
  "runtime \<Rightarrow> string \<Rightarrow> fetchCall \<Rightarrow> response \<Rightarrow> state \<Rightarrow> state" where
  "fetchAvailableSlots_resolve rt date call resp st =
     (let failed = st\<lparr>toasts := toasts st @ [''Error''], availableSlots := [], loading := False\<rparr>
      in case resp of
           FetchRejected \<Rightarrow> failed
         | NotOk \<Rightarrow> failed
         | JsonRejected \<Rightarrow> failed
         | Json data \<Rightarrow>
            if tzAtStart call \<noteq> closureTimezone call then st\<lparr>loading := False\<rparr>
            else (case slotStrings data date of
                    None \<Rightarrow> failed
                  | Some daySlots \<Rightarrow>
                     (case convertSlots rt (closureTimezone call) daySlots of
                        None \<Rightarrow> failed
                      | Some slots \<Rightarrow> st\<lparr>availableSlots := slots, loading := False\<rparr>)))"

text \<open>
  The effect on \<^verbatim>\<open>[selectedTimezone]\<close>, run by the render in which the state has the value
  \<open>renderTz\<close>: it clears a filled cache and starts the range fetch of that render.
\<close>

definition timezoneEffect :: "string \<Rightarrow> state \<Rightarrow> state \<times> fetchCall option" where
  "timezoneEffect renderTz st =
     (if renderTz = [] then (st, None)
      else (let hasExistingSlots = (map fst (allSlots st) \<noteq> []);
                st1 = (if hasExistingSlots
                       then st\<lparr>allSlots := [], availableSlots := [], selectedDate := [],
                               selectedTime := []\<rparr>
                       else st);
                (st2, call) = fetchAllAvailableSlots_start renderTz st1
            in (st2, Some call)))"

subsection \<open>Timezone detection at mount\<close>

text \<open>
  What \<^verbatim>\<open>Intl.DateTimeFormat().resolvedOptions().timeZone\<close> gives: an exception, no value, or
  a name.
\<close>

datatype tzProbe = ProbeThrows | ProbeUndefined | ProbeZone string

definition TZ_ALIASES :: "(string \<times> string) list" where
  "TZ_ALIASES = [(''America/Santa_Isabel'', ''America/Tijuana'')]"

text \<open>
  The mount effect; the result is the argument of the one \<^verbatim>\<open>setSelectedTimezone\<close> call it
  makes. With no value, \<^verbatim>\<open>normalizedTz.includes\<close> throws and the \<^verbatim>\<open>catch\<close> branch runs.
\<close>

definition detectTimezone :: "tzProbe \<Rightarrow> string" where
  "detectTimezone probe =
     (case probe of
        ProbeThrows \<Rightarrow> ''America/Mexico_City''
      | ProbeUndefined \<Rightarrow> ''America/Mexico_City''
      | ProbeZone browserTz \<Rightarrow>
         (let normalizedTz = (case map_of TZ_ALIASES browserTz of
                                Some a \<Rightarrow> a | None \<Rightarrow> browserTz);
              supported = list_ex (\<lambda>tz. tz = normalizedTz) TIMEZONES
          in if supported then normalizedTz
             else if includesStr normalizedTz ''Tijuana'' then ''America/Tijuana''
             else if includesStr normalizedTz ''Los_Angeles'' \<or> includesStr normalizedTz ''Vancouver''
                     \<or> includesStr normalizedTz ''Phoenix'' then ''America/Los_Angeles''
             else if includesStr normalizedTz ''Mexico'' \<or> includesStr normalizedTz ''Mexico_City''
                     \<or> includesStr normalizedTz ''Guatemala'' \<or> includesStr normalizedTz ''Belize''
                     \<or> includesStr normalizedTz ''Chicago'' then ''America/Mexico_City''
             else ''America/Mexico_City''))"

subsection \<open>Month navigation\<close>

datatype direction = Prev | Next

definition isLeapYear :: "int \<Rightarrow> bool" where
  "isLeapYear y = (y mod 4 = 0 \<and> (y mod 100 \<noteq> 0 \<or> y mod 400 = 0))"

definition daysInMonth :: "int \<Rightarrow> nat \<Rightarrow> nat" where
  "daysInMonth y m =
     (if m = 1 then (if isLeapYear y then 29 else 28)
      else if m = 3 \<or> m = 5 \<or> m = 8 \<or> m = 10 then 30 else 31)"

text \<open>\<^verbatim>\<open>d.setDate(n)\<close> for a day that every month has.\<close>

definition setDate :: "nat \<Rightarrow> jsDate \<Rightarrow> jsDate" where
  "setDate n d = d\<lparr>dayOfMonth := n\<rparr>"

text \<open>
  \<^verbatim>\<open>d.setMonth(m)\<close>: the month index is carried into the year, and a day of the month that
  the target month does not have runs over into the following month.
\<close>

definition setMonth :: "int \<Rightarrow> jsDate \<Rightarrow> jsDate" where
  "setMonth m d =
     (let y = fullYear d + m div 12;
          mi = nat (m mod 12);
          dim = daysInMonth y mi
      in if dayOfMonth d \<le> dim then \<lparr>fullYear = y, monthIndex = mi, dayOfMonth = dayOfMonth d\<rparr>
         else if mi = 11 then \<lparr>fullYear = y + 1, monthIndex = 0, dayOfMonth = dayOfMonth d - dim\<rparr>
         else \<lparr>fullYear = y, monthIndex = mi + 1, dayOfMonth = dayOfMonth d - dim\<rparr>)"

definition toStringInt :: "int \<Rightarrow> string" where
  "toStringInt i = (if i < 0 then ''-'' @ toString (nat (- i)) else toString (nat i))"

text \<open>The local \<^verbatim>\<open>monthPrefix\<close> of \<^verbatim>\<open>navigateMonth\<close>, for example \<^verbatim>\<open>2025-11-\<close>.\<close>

definition monthPrefix :: "jsDate \<Rightarrow> string" where
  "monthPrefix newMonth =
     (let year = fullYear newMonth;
          month = padStart2 (toString (monthIndex newMonth + 1))
      in toStringInt year @ ''-'' @ month @ ''-'')"

text \<open>
  \<^verbatim>\<open>navigateMonth\<close>. \<^verbatim>\<open>.sort()\<close> with no comparator orders strings by their code units,
  which is the lexicographic order of \<^typ>\<open>string\<close>.
\<close>

definition navigateMonth :: "direction \<Rightarrow> state \<Rightarrow> state" where
  "navigateMonth dir st =
     (let newMonth0 = setDate 1 (currentMonth st);
          newMonth = setMonth (int (monthIndex newMonth0) + (if dir = Prev then - 1 else 1)) newMonth0;
          candidateDates =
            sort (filter (\<lambda>d. startsWith d (monthPrefix newMonth)
                                \<and> length (slotsAt (allSlots st) d) > 0)
                         (map fst (allSlots st)))
      in case candidateDates of
           firstDate # _ \<Rightarrow>
             st\<lparr>currentMonth := newMonth, selectedDate := firstDate,
                availableSlots := slotsAt (allSlots st) firstDate\<rparr>
         | [] \<Rightarrow> st\<lparr>currentMonth := newMonth, selectedDate := [], availableSlots := []\<rparr>)"

subsection \<open>A runtime for the worked scenarios\<close>

text \<open>
  Days from 1 January 1970 to a date of the proleptic Gregorian calendar (month from 1).
\<close>

definition daysFromCivil :: "int \<Rightarrow> int \<Rightarrow> int \<Rightarrow> int" where
  "daysFromCivil y m d =
     (let y1 = (if m \<le> 2 then y - 1 else y);
          era = y1 div 400;
          yoe = y1 - era * 400;
          doy = (153 * (if m > 2 then m - 3 else m + 9) + 2) div 5 + d - 1;
          doe = yoe * 365 + yoe div 4 - yoe div 100 + doy
      in era * 146097 + doe - 719468)"

text \<open>
  A \<^verbatim>\<open>Date\<close> parser that reads the provider's fixed-offset format and nothing else, and a
  timezone table with the offsets in force on 3 November 2025. They stand for the runtime
  in theorems about one concrete scenario.
\<close>

definition sampleDateParse :: "string \<Rightarrow> int option" where
  "sampleDateParse s =
     (case ghlMatch s of
        None \<Rightarrow> None
      | Some (date, h, mi, sec, off) \<Rightarrow>
         (let y = int (digitsVal (take 4 date));
              mo = int (digitsVal (take 2 (drop 5 date)));
              d = int (digitsVal (drop 8 date));
              offMin = int (digitsVal (take 2 (drop 1 off))) * 60 + int (digitsVal (drop 4 off));
              offSec = (if take 1 off = ''-'' then - offMin else offMin) * 60;
              local = daysFromCivil y mo d * 86400 + int (digitsVal h) * 3600
                        + int (digitsVal mi) * 60 + int (digitsVal sec)
          in if 1 \<le> mo \<and> mo \<le> 12 \<and> 1 \<le> d \<and> nat d \<le> daysInMonth y (nat (mo - 1))
                \<and> digitsVal h \<le> 23 \<and> digitsVal mi \<le> 59 \<and> digitsVal sec \<le> 59
                \<and> digitsVal (take 2 (drop 1 off)) \<le> 23 \<and> digitsVal (drop 4 off) \<le> 59
             then Some ((local - offSec) * 1000) else None))"

definition sampleZone :: "string \<Rightarrow> (int \<Rightarrow> int) option" where
  "sampleZone tz =
     map_option (\<lambda>hours. (\<lambda>t. hours * 3600))
       (map_of [(''UTC'', 0), (''America/Mexico_City'', - 6), (''America/Chihuahua'', - 6),
                (''America/Tijuana'', - 8), (''America/New_York'', - 5),
                (''America/Los_Angeles'', - 8), (''America/Chicago'', - 6),
                (''Europe/Madrid'', 1), (''Europe/London'', 0)] tz)"

definition sampleRuntime :: runtime where
  "sampleRuntime = \<lparr>dateParse = sampleDateParse, zone = sampleZone, hourCycle24 = False\<rparr>"

text \<open>A day, and a reply of the slots endpoint with one provider slot on it.\<close>

definition sampleToday :: jsDate where
  "sampleToday = \<lparr>fullYear = 2025, monthIndex = 10, dayOfMonth = 3\<rparr>"

definition sampleReply :: "(string \<times> dayEntry) list" where
  "sampleReply = [(''2025-11-03'', SlotList [''2025-11-03T16:00:00-06:00''])]"

text \<open>A converted slot, and a state whose cache has dates of January and February 2025.\<close>

definition sampleSlot :: TimeSlot where
  "sampleSlot = \<lparr>startTime = ''17:00:00'', endTime = ''17:00:00'', available = True,
                  originalGHLTime = Some ''2025-11-03T16:00:00-06:00''\<rparr>"

definition sampleState :: state where
  "sampleState =
     (initialState \<lparr>fullYear = 2025, monthIndex = 0, dayOfMonth = 31\<rparr>)
       \<lparr>allSlots := [(''2025-02-10'', [sampleSlot]), (''2025-02-03'', [sampleSlot]),
                      (''2025-02-01'', []), (''2025-01-31'', [sampleSlot])]\<rparr>"

section \<open>Properties\<close>

subsection \<open>Digits and the timestamp pattern\<close>

lemma matches_list_all2: "matches ps s = list_all2 accepts ps s"
  by (induction ps s rule: matches.induct) auto

lemma small_digit: "k < 10 \<Longrightarrow> k \<in> {0, 1, 2, 3, 4, 5, 6, 7, 8, 9 :: nat}"
  by auto

lemma isDigit_digitChar: "isDigit (digitChar n)"
  using small_digit [of "n mod 10"] by (auto simp: isDigit_def digitChar_def)

lemma digitChar_0: "digitChar 0 = CHR ''0''"
  by (simp add: digitChar_def)

lemma toString_one_digit: "n < 10 \<Longrightarrow> toString n = [digitChar n]"
  by (subst toString.simps) simp

lemma toString_two_digits:
  assumes "10 \<le> n" "n < 100"
  shows "toString n = [digitChar (n div 10), digitChar n]"
proof -
  from assms have "n div 10 < 10" by simp
  then have "toString (n div 10) = [digitChar (n div 10)]"
    by (rule toString_one_digit)
  with assms show ?thesis
    by (subst toString.simps) simp
qed

lemma padStart2_toString:
  assumes "n < 100"
  shows "padStart2 (toString n) = [digitChar (n div 10), digitChar n]"
proof (cases "n < 10")
  case True
  then show ?thesis
    by (simp add: toString_one_digit padStart2_def digitChar_0)
next
  case False
  with assms show ?thesis
    by (simp add: toString_two_digits padStart2_def)
qed

lemma ghlPattern_split:
  "ghlPattern = [D, D, D, D, Lit (CHR ''-''), D, D, Lit (CHR ''-''), D, D] @ [Lit (CHR ''T'')]
      @ [D, D] @ [Lit (CHR '':'')] @ [D, D] @ [Lit (CHR '':'')] @ [D, D]
      @ [Sign, D, D, Lit (CHR '':''), D, D]"
  by (simp add: ghlPattern_def)

lemma ghlMatch_parts:
  assumes "ghlMatch ts = Some (d, h, mi, s, off)"
  shows "list_all2 accepts ghlPattern ts" and "length ts = 25"
    and "d = take 10 ts" and "h = take 2 (drop 11 ts)" and "mi = take 2 (drop 14 ts)"
    and "s = take 2 (drop 17 ts)" and "off = drop 19 ts"
proof -
  from assms show mt: "list_all2 accepts ghlPattern ts"
    and "d = take 10 ts" and "h = take 2 (drop 11 ts)" and "mi = take 2 (drop 14 ts)"
    and "s = take 2 (drop 17 ts)" and "off = drop 19 ts"
    by (auto simp: ghlMatch_def matches_list_all2 split: if_splits)
  from list_all2_lengthD [OF mt] show "length ts = 25"
    by (simp add: ghlPattern_def)
qed

text \<open>
  Putting two digits for the hour and two for the minute between the captured date,
  seconds and offset of a matching timestamp gives a string that matches again, with the
  same date, seconds and offset groups.
\<close>

lemma ghlMatch_rebuild:
  assumes m: "ghlMatch ts = Some (d, h, mi, s, off)" and a: "isDigit a" and b: "isDigit b"
    and c: "isDigit c" and e: "isDigit e"
  shows "ghlMatch (d @ ''T'' @ [a, b] @ '':'' @ [c, e] @ '':'' @ s @ off)
           = Some (d, [a, b], [c, e], s, off)"
proof -
  note parts = ghlMatch_parts [OF m]
  have mt: "list_all2 accepts ghlPattern ts" by (rule parts(1))
  have len: "length ts = 25" by (rule parts(2))
  have p1: "list_all2 accepts [D, D, D, D, Lit (CHR ''-''), D, D, Lit (CHR ''-''), D, D] d"
    using list_all2_takeI [OF mt, of 10] by (simp add: parts(3) ghlPattern_def)
  have p2: "list_all2 accepts [D, D] s"
    using list_all2_takeI [OF list_all2_dropI [OF mt, of 17], of 2]
    by (simp add: parts(6) ghlPattern_def)
  have p3: "list_all2 accepts [Sign, D, D, Lit (CHR '':''), D, D] off"
    using list_all2_dropI [OF mt, of 19] by (simp add: parts(7) ghlPattern_def)
  have ld: "length d = 10" and ls: "length s = 2"
    using len by (simp_all add: parts(3) parts(6))
  have "list_all2 accepts ghlPattern (d @ ''T'' @ [a, b] @ '':'' @ [c, e] @ '':'' @ s @ off)"
    unfolding ghlPattern_split
    by (intro list_all2_appendI p1 p2 p3) (simp_all add: a b c e)
  then show ?thesis
    by (simp add: ghlMatch_def matches_list_all2 ld ls)
qed

subsection \<open>The booking request\<close>

text \<open>
  Once a date, a time and a contact are present and a slot with the selected start time
  is found, the outcome depends on that slot's provider timestamp and on the runtime's
  reading of the two timestamps.
\<close>

lemma handleBooking_reaches_slot:
  assumes "selDate \<noteq> []" "selTime \<noteq> []" "contactId \<noteq> []"
    and "find (\<lambda>slot. startTime slot = selTime) slots = Some slot"
  shows "handleBooking rt contactId bn mn sd selDate selTime slots =
     (case originalGHLTime slot of
        None \<Rightarrow> Failed MissingProviderTimestamp
      | Some ts \<Rightarrow>
         if ts = [] then Failed MissingProviderTimestamp
         else (case ghlMatch ts of
                 None \<Rightarrow> Failed MalformedProviderTimestamp
               | Some (d, h, mi, s, off) \<Rightarrow>
                  (let e = d @ ''T''
                         @ padStart2 (toString (((parseInt h * 60 + parseInt mi + 45) div 60) mod 24))
                         @ '':'' @ padStart2 (toString ((parseInt h * 60 + parseInt mi + 45) mod 60))
                         @ '':'' @ s @ off
                   in if validDate rt ts \<and> validDate rt e
                      then Submitted \<lparr>req_contactId = contactId, req_startTime = ts,
                             req_endTime = e, req_title = ''Kickoff - '' @ bn,
                             req_description = ''Videollamada de kickoff con '' @ mn @ '' de '' @ bn,
                             req_surveyData = sd\<rparr>
                      else Failed InvalidDateTime)))"
  using assms by (simp add: handleBooking_def Let_def split: option.splits prod.splits)

text \<open>
  C2. Whenever the selected slot's provider timestamp matches the pattern, the end
  timestamp \<open>e\<close> that \<^verbatim>\<open>handleBooking\<close> builds matches the pattern too and has the same
  date, seconds and offset groups as the start; in particular its offset substring (from
  position 19) is the start's. The request carries the provider timestamp itself as
  start and \<open>e\<close> as end, and it is sent unless the runtime's \<^verbatim>\<open>Date\<close> rejects one of them.
\<close>

theorem booking_end_reuses_offset:
  assumes "selDate \<noteq> []" "selTime \<noteq> []" "contactId \<noteq> []"
    and "find (\<lambda>slot. startTime slot = selTime) slots = Some slot"
    and "originalGHLTime slot = Some ts"
    and "ghlMatch ts = Some (d, h, mi, s, off)"
  shows "\<exists>e h' mi'.
           ghlMatch e = Some (d, h', mi', s, off) \<and> drop 19 e = drop 19 ts \<and>
           handleBooking rt contactId bn mn sd selDate selTime slots =
             (if validDate rt ts \<and> validDate rt e
              then Submitted \<lparr>req_contactId = contactId, req_startTime = ts,
                     req_endTime = e, req_title = ''Kickoff - '' @ bn,
                     req_description = ''Videollamada de kickoff con '' @ mn @ '' de '' @ bn,
                     req_surveyData = sd\<rparr>
              else Failed InvalidDateTime)"
proof -
  define eh where "eh = ((parseInt h * 60 + parseInt mi + 45) div 60) mod 24"
  define em where "em = (parseInt h * 60 + parseInt mi + 45) mod 60"
  define e where "e = d @ ''T'' @ padStart2 (toString eh) @ '':'' @ padStart2 (toString em)
                       @ '':'' @ s @ off"
  have eh: "eh < 100" and em: "em < 100"
    by (simp_all add: eh_def em_def less_trans [OF mod_less_divisor])
  note parts = ghlMatch_parts [OF assms(6)]
  have ne: "ts \<noteq> []" using parts(2) by auto
  have m: "ghlMatch e = Some (d, [digitChar (eh div 10), digitChar eh],
                             [digitChar (em div 10), digitChar em], s, off)"
    unfolding e_def padStart2_toString [OF eh] padStart2_toString [OF em]
    by (rule ghlMatch_rebuild [OF assms(6)]) (rule isDigit_digitChar)+
  have off: "drop 19 e = drop 19 ts"
    using ghlMatch_parts(7) [OF m] parts(7) by simp
  have "handleBooking rt contactId bn mn sd selDate selTime slots =
          (if validDate rt ts \<and> validDate rt e
              then Submitted \<lparr>req_contactId = contactId, req_startTime = ts,
                     req_endTime = e, req_title = ''Kickoff - '' @ bn,
                     req_description = ''Videollamada de kickoff con '' @ mn @ '' de '' @ bn,
                     req_surveyData = sd\<rparr>
              else Failed InvalidDateTime)"
    unfolding handleBooking_reaches_slot [OF assms(1-4)]
    by (simp add: assms(5) assms(6) ne e_def eh_def em_def Let_def)
  with m off show ?thesis by blast
qed

theorem booking_end_reuses_offset_witness:
  "\<exists>e h' mi'.
     ghlMatch e = Some (''2025-11-03'', h', mi', ''00'', ''-06:00'') \<and>
     drop 19 e = drop 19 ''2025-11-03T16:00:00-06:00'' \<and>
     handleBooking sampleRuntime ''c1'' ''Clinica'' ''Ana'' () ''2025-11-03'' ''17:00:00''
         [\<lparr>startTime = ''17:00:00'', endTime = ''17:00:00'', available = True,
           originalGHLTime = Some ''2025-11-03T16:00:00-06:00''\<rparr>] =
       (if validDate sampleRuntime ''2025-11-03T16:00:00-06:00'' \<and> validDate sampleRuntime e
        then Submitted \<lparr>req_contactId = ''c1'', req_startTime = ''2025-11-03T16:00:00-06:00'',
               req_endTime = e, req_title = ''Kickoff - '' @ ''Clinica'',
               req_description = ''Videollamada de kickoff con '' @ ''Ana'' @ '' de '' @ ''Clinica'',
               req_surveyData = ()\<rparr>
        else Failed InvalidDateTime)"
proof -
  let ?slot = "\<lparr>startTime = ''17:00:00'', endTime = ''17:00:00'', available = True,
                 originalGHLTime = Some ''2025-11-03T16:00:00-06:00''\<rparr>"
  have 1: "''2025-11-03'' \<noteq> []" and 2: "''17:00:00'' \<noteq> []" and 3: "''c1'' \<noteq> []"
    by simp_all
  have 4: "find (\<lambda>slot. startTime slot = ''17:00:00'') [?slot] = Some ?slot"
    by simp
  have 5: "originalGHLTime ?slot = Some ''2025-11-03T16:00:00-06:00''"
    by simp
  have 6: "ghlMatch ''2025-11-03T16:00:00-06:00''
             = Some (''2025-11-03'', ''16'', ''00'', ''00'', ''-06:00'')"
    by code_simp
  show ?thesis
    by (rule booking_end_reuses_offset [OF 1 2 3 4 5 6])
qed

text \<open>
  C5. Where \<^verbatim>\<open>handleBooking\<close> reaches its slot lookup (a date and a time are selected, the
  contact id is present) and finds the slot, it fails with the missing-timestamp error when
  the slot has no provider timestamp (the field is absent or the empty string, which the
  source's test \<^verbatim>\<open>!selectedSlot.originalGHLTime\<close> does not tell apart), and with the
  malformed-timestamp error when the stored timestamp does not match the pattern. Both
  outcomes are failures before the appointment call; a request is only ever sent with the
  slot's own stored, matching timestamp as its start.
\<close>

theorem booking_fails_without_timestamp:
  assumes "selDate \<noteq> []" "selTime \<noteq> []" "contactId \<noteq> []"
    and "find (\<lambda>slot. startTime slot = selTime) slots = Some slot"
  shows "(originalGHLTime slot = None \<or> originalGHLTime slot = Some [] \<longrightarrow>
            handleBooking rt contactId bn mn sd selDate selTime slots
              = Failed MissingProviderTimestamp)
       \<and> (\<forall>ts. originalGHLTime slot = Some ts \<and> ts \<noteq> [] \<and> \<not> matches ghlPattern ts \<longrightarrow>
            handleBooking rt contactId bn mn sd selDate selTime slots
              = Failed MalformedProviderTimestamp)
       \<and> (\<forall>r. handleBooking rt contactId bn mn sd selDate selTime slots = Submitted r \<longrightarrow>
            originalGHLTime slot = Some (req_startTime r) \<and> matches ghlPattern (req_startTime r))"
  unfolding handleBooking_reaches_slot [OF assms]
  by (auto simp: ghlMatch_def Let_def split: option.splits if_splits)

theorem booking_fails_without_timestamp_witness:
  "handleBooking sampleRuntime ''c1'' ''Clinica'' ''Ana'' () ''2025-11-03'' ''17:00:00''
       [\<lparr>startTime = ''17:00:00'', endTime = ''17:00:00'', available = True,
         originalGHLTime = None\<rparr>] = Failed MissingProviderTimestamp
   \<and> handleBooking sampleRuntime ''c1'' ''Clinica'' ''Ana'' () ''2025-11-03'' ''17:00:00''
       [\<lparr>startTime = ''17:00:00'', endTime = ''17:00:00'', available = True,
         originalGHLTime = Some ''2025-11-03T16:00:00Z''\<rparr>] = Failed MalformedProviderTimestamp"
proof -
  let ?a = "\<lparr>startTime = ''17:00:00'', endTime = ''17:00:00'', available = True,
              originalGHLTime = None\<rparr>"
  let ?b = "\<lparr>startTime = ''17:00:00'', endTime = ''17:00:00'', available = True,
              originalGHLTime = Some ''2025-11-03T16:00:00Z''\<rparr>"
  have 1: "''2025-11-03'' \<noteq> []" and 2: "''17:00:00'' \<noteq> []" and 3: "''c1'' \<noteq> []"
    by simp_all
  have a: "find (\<lambda>slot. startTime slot = ''17:00:00'') [?a] = Some ?a" by simp
  have b: "find (\<lambda>slot. startTime slot = ''17:00:00'') [?b] = Some ?b" by simp
  have nm: "\<not> matches ghlPattern ''2025-11-03T16:00:00Z''" by code_simp
  from booking_fails_without_timestamp [OF 1 2 3 a, of sampleRuntime "''Clinica''" "''Ana''" "()"]
  have "handleBooking sampleRuntime ''c1'' ''Clinica'' ''Ana'' () ''2025-11-03'' ''17:00:00'' [?a]
          = Failed MissingProviderTimestamp"
    by simp
  moreover
  from booking_fails_without_timestamp [OF 1 2 3 b, of sampleRuntime "''Clinica''" "''Ana''" "()"] nm
  have "handleBooking sampleRuntime ''c1'' ''Clinica'' ''Ana'' () ''2025-11-03'' ''17:00:00'' [?b]
          = Failed MalformedProviderTimestamp"
    by simp
  ultimately show ?thesis by simp
qed

text \<open>
  C4. The display-side end time does not wrap the hour: a slot shown at 23:30 gets the
  end \<^verbatim>\<open>24:15\<close>, which the slot button renders as \<^verbatim>\<open>12:15 p. m.\<close>. The booking side does
  reduce the hour modulo 24, and keeps the date: a provider slot at 23:30 is booked until
  \<^verbatim>\<open>00:15\<close> of the same date string.
\<close>

theorem getEndTime_does_not_wrap_hour:
  "getEndTime ''23:30:00'' = Some ''24:15''
   \<and> formatTimeForDisplay ''24:15'' = Some ''12:15 p. m.''
   \<and> handleBooking sampleRuntime ''c1'' ''Clinica'' ''Ana'' () ''2025-11-03'' ''23:30:00''
       [\<lparr>startTime = ''23:30:00'', endTime = ''23:30:00'', available = True,
         originalGHLTime = Some ''2025-11-03T23:30:00-06:00''\<rparr>]
     = Submitted \<lparr>req_contactId = ''c1'', req_startTime = ''2025-11-03T23:30:00-06:00'',
         req_endTime = ''2025-11-03T00:15:00-06:00'', req_title = ''Kickoff - Clinica'',
         req_description = ''Videollamada de kickoff con Ana de Clinica'',
         req_surveyData = ()\<rparr>"
  by code_simp

theorem getEndTime_does_not_wrap_hour_witness: "getEndTime ''23:30:00'' = Some ''24:15''"
  by (rule conjunct1 [OF getEndTime_does_not_wrap_hour])

subsection \<open>Timezone detection\<close>

lemma supported_iff: "list_ex (\<lambda>tz. tz = n) TIMEZONES = (n \<in> set TIMEZONES)"
  by (auto simp: list_ex_iff)

lemma fallbacks_supported:
  "''America/Tijuana'' \<in> set TIMEZONES" "''America/Los_Angeles'' \<in> set TIMEZONES"
  "''America/Mexico_City'' \<in> set TIMEZONES"
  by (simp_all add: TIMEZONES_def)

lemma detectTimezone_in_list: "detectTimezone probe \<in> set TIMEZONES"
proof (cases probe)
  case (ProbeZone browserTz)
  then show ?thesis
    by (simp add: detectTimezone_def Let_def supported_iff fallbacks_supported)
qed (simp_all add: detectTimezone_def fallbacks_supported)

lemma detectTimezone_keeps_supported:
  assumes "tz \<in> set TIMEZONES"
  shows "detectTimezone (ProbeZone tz) = tz"
proof -
  from assms have "map_of TZ_ALIASES tz = None"
    by (auto simp: TIMEZONES_def TZ_ALIASES_def)
  with assms show ?thesis
    by (simp add: detectTimezone_def Let_def supported_iff)
qed

lemma startsWith_iff: "startsWith s p \<longleftrightarrow> (\<exists>post. s = p @ post)"
proof
  assume "startsWith s p"
  then have "s = p @ drop (length p) s"
    by (metis startsWith_def append_take_drop_id)
  then show "\<exists>post. s = p @ post" ..
next
  assume "\<exists>post. s = p @ post"
  then show "startsWith s p"
    by (auto simp: startsWith_def)
qed

lemma includesStr_iff: "includesStr s sub \<longleftrightarrow> (\<exists>pre post. s = pre @ sub @ post)"
proof (induction s)
  case Nil
  then show ?case by auto
next
  case (Cons c cs)
  show ?case
  proof
    assume "includesStr (c # cs) sub"
    then consider "startsWith (c # cs) sub" | "includesStr cs sub" by auto
    then show "\<exists>pre post. c # cs = pre @ sub @ post"
    proof cases
      case 1
      then obtain post where "c # cs = sub @ post"
        by (auto simp: startsWith_iff)
      then have "c # cs = [] @ sub @ post" by simp
      then show ?thesis by blast
    next
      case 2
      with Cons.IH obtain pre post where "cs = pre @ sub @ post" by auto
      then have "c # cs = (c # pre) @ sub @ post" by simp
      then show ?thesis by blast
    qed
  next
    assume "\<exists>pre post. c # cs = pre @ sub @ post"
    then obtain pre post where e: "c # cs = pre @ sub @ post" by auto
    show "includesStr (c # cs) sub"
    proof (cases pre)
      case Nil
      with e have "startsWith (c # cs) sub"
        by (auto simp: startsWith_iff)
      then show ?thesis by simp
    next
      case (Cons a pre')
      with e have "cs = pre' @ sub @ post" by simp
      with Cons.IH have "includesStr cs sub" by blast
      then show ?thesis by simp
    qed
  qed
qed

lemma detectTimezone_chain:
  assumes "tz \<notin> set TIMEZONES" and "tz \<noteq> ''America/Santa_Isabel''"
  shows "detectTimezone (ProbeZone tz) =
     (if (\<exists>pre post. tz = pre @ ''Tijuana'' @ post) then ''America/Tijuana''
      else if (\<exists>pre post. tz = pre @ ''Los_Angeles'' @ post)
              \<or> (\<exists>pre post. tz = pre @ ''Vancouver'' @ post)
              \<or> (\<exists>pre post. tz = pre @ ''Phoenix'' @ post) then ''America/Los_Angeles''
      else if (\<exists>pre post. tz = pre @ ''Mexico'' @ post)
              \<or> (\<exists>pre post. tz = pre @ ''Mexico_City'' @ post)
              \<or> (\<exists>pre post. tz = pre @ ''Guatemala'' @ post)
              \<or> (\<exists>pre post. tz = pre @ ''Belize'' @ post)
              \<or> (\<exists>pre post. tz = pre @ ''Chicago'' @ post) then ''America/Mexico_City''
      else ''America/Mexico_City'')"
proof -
  from assms(2) have "map_of TZ_ALIASES tz = None"
    by (simp add: TZ_ALIASES_def)
  with assms(1) show ?thesis
    unfolding includesStr_iff [symmetric]
    by (simp add: detectTimezone_def Let_def supported_iff)
qed


text \<open>
  C8. Whatever the runtime's timezone probe gives (a name, no value, or an exception), the
  mount effect selects a supported timezone, and raises nothing and shows no message. A
  supported name is kept; the alias \<^verbatim>\<open>America/Santa_Isabel\<close> is taken to
  \<^verbatim>\<open>America/Tijuana\<close>; an exception or a missing value gives \<^verbatim>\<open>America/Mexico_City\<close>.
  Every other name goes through the chain of regional cues, in this order: a name that
  contains \<^verbatim>\<open>Tijuana\<close> gives \<^verbatim>\<open>America/Tijuana\<close>; one that contains \<^verbatim>\<open>Los_Angeles\<close>,
  \<^verbatim>\<open>Vancouver\<close> or \<^verbatim>\<open>Phoenix\<close> gives \<^verbatim>\<open>America/Los_Angeles\<close>; one that contains
  \<^verbatim>\<open>Mexico\<close>, \<^verbatim>\<open>Mexico_City\<close>, \<^verbatim>\<open>Guatemala\<close>, \<^verbatim>\<open>Belize\<close> or \<^verbatim>\<open>Chicago\<close> gives
  \<^verbatim>\<open>America/Mexico_City\<close>; and every remaining name gives the default
  \<^verbatim>\<open>America/Mexico_City\<close> as well. Containment is stated on the strings themselves.
\<close>

theorem detectTimezone_supported:
  "detectTimezone probe \<in> set TIMEZONES
   \<and> (\<forall>tz\<in>set TIMEZONES. detectTimezone (ProbeZone tz) = tz)
   \<and> detectTimezone (ProbeZone ''America/Santa_Isabel'') = ''America/Tijuana''
   \<and> detectTimezone ProbeThrows = ''America/Mexico_City''
   \<and> detectTimezone ProbeUndefined = ''America/Mexico_City''
   \<and> (\<forall>tz. tz \<notin> set TIMEZONES \<and> tz \<noteq> ''America/Santa_Isabel'' \<longrightarrow>
         detectTimezone (ProbeZone tz) =
           (if (\<exists>pre post. tz = pre @ ''Tijuana'' @ post) then ''America/Tijuana''
            else if (\<exists>pre post. tz = pre @ ''Los_Angeles'' @ post)
                    \<or> (\<exists>pre post. tz = pre @ ''Vancouver'' @ post)
                    \<or> (\<exists>pre post. tz = pre @ ''Phoenix'' @ post) then ''America/Los_Angeles''
            else if (\<exists>pre post. tz = pre @ ''Mexico'' @ post)
                    \<or> (\<exists>pre post. tz = pre @ ''Mexico_City'' @ post)
                    \<or> (\<exists>pre post. tz = pre @ ''Guatemala'' @ post)
                    \<or> (\<exists>pre post. tz = pre @ ''Belize'' @ post)
                    \<or> (\<exists>pre post. tz = pre @ ''Chicago'' @ post) then ''America/Mexico_City''
            else ''America/Mexico_City''))"
proof -
  have "detectTimezone (ProbeZone ''America/Santa_Isabel'') = ''America/Tijuana''"
    by code_simp
  moreover have "detectTimezone ProbeThrows = ''America/Mexico_City''"
    and "detectTimezone ProbeUndefined = ''America/Mexico_City''"
    by (simp_all add: detectTimezone_def)
  ultimately show ?thesis
    using detectTimezone_in_list [of probe] detectTimezone_keeps_supported detectTimezone_chain
    by (intro conjI ballI allI impI) (simp_all del: split_paired_All)
qed

theorem detectTimezone_supported_witness:
  "detectTimezone (ProbeZone ''Europe/Madrid'') = ''Europe/Madrid''
   \<and> detectTimezone (ProbeZone ''Mexico/Tijuana_Norte'') = ''America/Tijuana''
   \<and> detectTimezone (ProbeZone ''America/Phoenix'') = ''America/Los_Angeles''
   \<and> detectTimezone (ProbeZone ''America/Vancouver'') = ''America/Los_Angeles''
   \<and> detectTimezone (ProbeZone ''America/Guatemala'') = ''America/Mexico_City''
   \<and> detectTimezone (ProbeZone ''Asia/Tokyo'') = ''America/Mexico_City''"
proof -
  note t = detectTimezone_supported [of ProbeThrows]
  note kept = t [THEN conjunct2, THEN conjunct1]
  note chain = t [THEN conjunct2, THEN conjunct2, THEN conjunct2, THEN conjunct2, THEN conjunct2,
                  THEN spec, THEN mp, unfolded includesStr_iff [symmetric]]
  have "''Europe/Madrid'' \<in> set TIMEZONES"
    by (simp add: TIMEZONES_def)
  with kept have 1: "detectTimezone (ProbeZone ''Europe/Madrid'') = ''Europe/Madrid''"
    by blast
  have u: "''Mexico/Tijuana_Norte'' \<notin> set TIMEZONES \<and> ''Mexico/Tijuana_Norte'' \<noteq> ''America/Santa_Isabel''"
    "''America/Phoenix'' \<notin> set TIMEZONES \<and> ''America/Phoenix'' \<noteq> ''America/Santa_Isabel''"
    "''America/Vancouver'' \<notin> set TIMEZONES \<and> ''America/Vancouver'' \<noteq> ''America/Santa_Isabel''"
    "''America/Guatemala'' \<notin> set TIMEZONES \<and> ''America/Guatemala'' \<noteq> ''America/Santa_Isabel''"
    "''Asia/Tokyo'' \<notin> set TIMEZONES \<and> ''Asia/Tokyo'' \<noteq> ''America/Santa_Isabel''"
    by (simp_all add: TIMEZONES_def)
  have c: "includesStr ''Mexico/Tijuana_Norte'' ''Tijuana''"
    "\<not> includesStr ''America/Phoenix'' ''Tijuana''" "includesStr ''America/Phoenix'' ''Phoenix''"
    "\<not> includesStr ''America/Vancouver'' ''Tijuana''"
    "includesStr ''America/Vancouver'' ''Vancouver''"
    "\<not> includesStr ''America/Guatemala'' ''Tijuana''"
    "\<not> includesStr ''America/Guatemala'' ''Los_Angeles''"
    "\<not> includesStr ''America/Guatemala'' ''Vancouver''"
    "\<not> includesStr ''America/Guatemala'' ''Phoenix''"
    "\<not> includesStr ''Asia/Tokyo'' ''Tijuana''"
    "\<not> includesStr ''Asia/Tokyo'' ''Los_Angeles''"
    "\<not> includesStr ''Asia/Tokyo'' ''Vancouver''"
    "\<not> includesStr ''Asia/Tokyo'' ''Phoenix''"
    by code_simp+
  have 2: "detectTimezone (ProbeZone ''Mexico/Tijuana_Norte'') = ''America/Tijuana''"
    using chain [OF u(1)] c by simp
  have 3: "detectTimezone (ProbeZone ''America/Phoenix'') = ''America/Los_Angeles''"
    using chain [OF u(2)] c by simp
  have 4: "detectTimezone (ProbeZone ''America/Vancouver'') = ''America/Los_Angeles''"
    using chain [OF u(3)] c by simp
  have 5: "detectTimezone (ProbeZone ''America/Guatemala'') = ''America/Mexico_City''"
    using chain [OF u(4)] c by simp
  have 6: "detectTimezone (ProbeZone ''Asia/Tokyo'') = ''America/Mexico_City''"
    using chain [OF u(5)] c by simp
  from 1 2 3 4 5 6 show ?thesis by simp
qed

subsection \<open>Slots built from the provider's reply\<close>

lemma those_map_all2:
  assumes "those (map f xs) = Some ys"
  shows "list_all2 (\<lambda>x y. f x = Some y) xs ys"
  using assms
proof (induction xs arbitrary: ys)
  case Nil
  then show ?case by simp
next
  case (Cons x xs)
  then show ?case by (auto split: option.splits)
qed

lemma toTimeSlot_fields:
  assumes "toTimeSlot rt tz slotTime = Some t"
  shows "available t" and "endTime t = startTime t" and "originalGHLTime t = Some slotTime"
  using assms by (auto simp: toTimeSlot_def Let_def split: option.splits)

lemma convertSlots_fields:
  assumes "convertSlots rt tz daySlots = Some slots"
  shows "map originalGHLTime slots = map Some daySlots"
    and "\<forall>t\<in>set slots. available t \<and> endTime t = startTime t"
proof -
  from assms have a: "list_all2 (\<lambda>s t. toTimeSlot rt tz s = Some t) daySlots slots"
    unfolding convertSlots_def by (rule those_map_all2)
  then have "list_all2 (\<lambda>s t. originalGHLTime t = Some s) daySlots slots"
    by (rule list_all2_mono) (simp add: toTimeSlot_fields)
  then show "map originalGHLTime slots = map Some daySlots"
    by (induction rule: list_all2_induct) simp_all
  from a show "\<forall>t\<in>set slots. available t \<and> endTime t = startTime t"
    by (induction rule: list_all2_induct) (auto simp: toTimeSlot_fields)
qed

lemma list_all2_source:
  "list_all2 P xs ys \<Longrightarrow> y \<in> set ys \<Longrightarrow> \<exists>x\<in>set xs. P x y"
  by (induction rule: list_all2_induct) auto

lemma buildSlotsMap_entries:
  assumes "buildSlotsMap rt tz data = Some slotsMap" and "(dateKey, slots) \<in> set slotsMap"
  shows "\<exists>daySlots. dateKey \<in> fst ` set data \<and> slotStrings data dateKey = Some daySlots
            \<and> convertSlots rt tz daySlots = Some slots"
proof -
  let ?f = "\<lambda>dateKey. case slotStrings data dateKey of None \<Rightarrow> None
              | Some daySlots \<Rightarrow> (case convertSlots rt tz daySlots of None \<Rightarrow> None
                                  | Some ts \<Rightarrow> Some (dateKey, ts))"
  from assms(1) have "list_all2 (\<lambda>x y. ?f x = Some y) (map fst data) slotsMap"
    unfolding buildSlotsMap_def by (rule those_map_all2)
  from list_all2_source [OF this assms(2)]
  obtain x where "x \<in> set (map fst data)" and "?f x = Some (dateKey, slots)"
    by blast
  then show ?thesis
    by (auto split: option.splits)
qed

text \<open>
  C10. Every slot the range fetch puts into its map, and every slot the single-date fetch
  builds, is available, has its end time equal to its start time, and carries the
  provider's timestamp of the same position unchanged. What the two fetches store is
  exactly such a conversion: the range fetch leaves \<^verbatim>\<open>allSlots\<close> alone or stores the map
  built from the reply, and the single-date fetch leaves \<^verbatim>\<open>availableSlots\<close> alone, empties
  it (on failure), or stores the converted list.
\<close>

theorem constructed_slots:
  "(buildSlotsMap rt tz data = Some slotsMap \<longrightarrow>
      (\<forall>(dateKey, slots)\<in>set slotsMap.
          \<exists>daySlots. dateKey \<in> fst ` set data \<and> slotStrings data dateKey = Some daySlots
             \<and> map originalGHLTime slots = map Some daySlots
             \<and> (\<forall>t\<in>set slots. available t \<and> endTime t = startTime t)))
   \<and> (convertSlots rt tz daySlots' = Some slots' \<longrightarrow>
         map originalGHLTime slots' = map Some daySlots'
         \<and> (\<forall>t\<in>set slots'. available t \<and> endTime t = startTime t))
   \<and> (allSlots (fetchAllAvailableSlots_resolve rt call resp st) = allSlots st
        \<or> (\<exists>d. resp = Json d \<and> buildSlotsMap rt (closureTimezone call) d
                   = Some (allSlots (fetchAllAvailableSlots_resolve rt call resp st))))
   \<and> (availableSlots (fetchAvailableSlots_resolve rt date call resp st) = availableSlots st
        \<or> availableSlots (fetchAvailableSlots_resolve rt date call resp st) = []
        \<or> (\<exists>d ds. resp = Json d \<and> slotStrings d date = Some ds
              \<and> convertSlots rt (closureTimezone call) ds
                   = Some (availableSlots (fetchAvailableSlots_resolve rt date call resp st))))"
proof (intro conjI impI)
  assume b: "buildSlotsMap rt tz data = Some slotsMap"
  show "\<forall>(dateKey, slots)\<in>set slotsMap.
          \<exists>daySlots. dateKey \<in> fst ` set data \<and> slotStrings data dateKey = Some daySlots
             \<and> map originalGHLTime slots = map Some daySlots
             \<and> (\<forall>t\<in>set slots. available t \<and> endTime t = startTime t)"
  proof (clarify)
    fix dateKey slots
    assume "(dateKey, slots) \<in> set slotsMap"
    from buildSlotsMap_entries [OF b this]
    obtain daySlots where "dateKey \<in> fst ` set data" "slotStrings data dateKey = Some daySlots"
      and c: "convertSlots rt tz daySlots = Some slots"
      by blast
    with convertSlots_fields [OF c]
    show "\<exists>daySlots. dateKey \<in> fst ` set data \<and> slotStrings data dateKey = Some daySlots
             \<and> map originalGHLTime slots = map Some daySlots
             \<and> (\<forall>t\<in>set slots. available t \<and> endTime t = startTime t)"
      by blast
  qed
next
  assume c: "convertSlots rt tz daySlots' = Some slots'"
  from convertSlots_fields [OF c]
  show "map originalGHLTime slots' = map Some daySlots'"
    and "\<forall>t\<in>set slots'. available t \<and> endTime t = startTime t"
    by simp_all
next
  show "allSlots (fetchAllAvailableSlots_resolve rt call resp st) = allSlots st
        \<or> (\<exists>d. resp = Json d \<and> buildSlotsMap rt (closureTimezone call) d
                   = Some (allSlots (fetchAllAvailableSlots_resolve rt call resp st)))"
    by (cases resp)
       (auto simp: fetchAllAvailableSlots_resolve_def Let_def split: option.splits)
next
  show "availableSlots (fetchAvailableSlots_resolve rt date call resp st) = availableSlots st
        \<or> availableSlots (fetchAvailableSlots_resolve rt date call resp st) = []
        \<or> (\<exists>d ds. resp = Json d \<and> slotStrings d date = Some ds
              \<and> convertSlots rt (closureTimezone call) ds
                   = Some (availableSlots (fetchAvailableSlots_resolve rt date call resp st)))"
    by (cases resp)
       (auto simp: fetchAvailableSlots_resolve_def Let_def split: option.splits)
qed

theorem constructed_slots_witness:
  "map originalGHLTime
      [\<lparr>startTime = ''17:00:00'', endTime = ''17:00:00'', available = True,
        originalGHLTime = Some ''2025-11-03T16:00:00-06:00''\<rparr>]
     = map Some [''2025-11-03T16:00:00-06:00'']
   \<and> convertSlots sampleRuntime ''America/New_York'' [''2025-11-03T16:00:00-06:00'']
     = Some [\<lparr>startTime = ''17:00:00'', endTime = ''17:00:00'', available = True,
               originalGHLTime = Some ''2025-11-03T16:00:00-06:00''\<rparr>]"
proof -
  have c: "convertSlots sampleRuntime ''America/New_York'' [''2025-11-03T16:00:00-06:00'']
     = Some [\<lparr>startTime = ''17:00:00'', endTime = ''17:00:00'', available = True,
               originalGHLTime = Some ''2025-11-03T16:00:00-06:00''\<rparr>]"
    by code_simp
  from constructed_slots [where rt = sampleRuntime and tz = "''America/New_York''"
      and daySlots' = "[''2025-11-03T16:00:00-06:00'']"
      and slots' = "[\<lparr>startTime = ''17:00:00'', endTime = ''17:00:00'', available = True,
         originalGHLTime = Some ''2025-11-03T16:00:00-06:00''\<rparr>]"] c
  show ?thesis by blast
qed

subsection \<open>The range fetch and the cache\<close>

text \<open>
  C9. A range fetch that fails (the request is rejected, the reply is not OK, its body
  cannot be read, or the conversion throws) leaves \<^verbatim>\<open>allSlots\<close> as it was. A range fetch
  that succeeds stores the map built from the reply as the whole of \<^verbatim>\<open>allSlots\<close>, whatever
  the map held before.
\<close>

theorem range_fetch_atomic:
  "(resp \<in> {FetchRejected, NotOk, JsonRejected} \<longrightarrow>
       allSlots (fetchAllAvailableSlots_resolve rt call resp st) = allSlots st)
   \<and> (buildSlotsMap rt (closureTimezone call) data = None \<longrightarrow>
       allSlots (fetchAllAvailableSlots_resolve rt call (Json data) st) = allSlots st)
   \<and> (buildSlotsMap rt renderTz data = Some slotsMap \<longrightarrow>
       allSlots (fetchAllAvailableSlots_resolve rt
                   (snd (fetchAllAvailableSlots_start renderTz st0)) (Json data) st) = slotsMap)"
  by (auto simp: fetchAllAvailableSlots_resolve_def fetchAllAvailableSlots_start_def Let_def)

theorem range_fetch_atomic_witness:
  "allSlots (fetchAllAvailableSlots_resolve sampleRuntime
       (snd (fetchAllAvailableSlots_start ''America/New_York'' (initialState sampleToday))) NotOk
       ((initialState sampleToday)\<lparr>allSlots := [(''2025-11-04'', [])]\<rparr>))
     = allSlots ((initialState sampleToday)\<lparr>allSlots := [(''2025-11-04'', [])]\<rparr>)
   \<and> allSlots (fetchAllAvailableSlots_resolve sampleRuntime
       (snd (fetchAllAvailableSlots_start ''America/New_York'' (initialState sampleToday)))
       (Json sampleReply)
       ((initialState sampleToday)\<lparr>allSlots := [(''2025-11-04'', [])]\<rparr>))
     = [(''2025-11-03'',
         [\<lparr>startTime = ''17:00:00'', endTime = ''17:00:00'', available = True,
           originalGHLTime = Some ''2025-11-03T16:00:00-06:00''\<rparr>])]"
proof -
  have b: "buildSlotsMap sampleRuntime ''America/New_York'' sampleReply
     = Some [(''2025-11-03'',
         [\<lparr>startTime = ''17:00:00'', endTime = ''17:00:00'', available = True,
           originalGHLTime = Some ''2025-11-03T16:00:00-06:00''\<rparr>])]"
    by code_simp
  have n: "NotOk \<in> {FetchRejected, NotOk, JsonRejected}"
    by simp
  from range_fetch_atomic [where resp = NotOk and rt = sampleRuntime
      and call = "snd (fetchAllAvailableSlots_start ''America/New_York'' (initialState sampleToday))"
      and st = "(initialState sampleToday)\<lparr>allSlots := [(''2025-11-04'', [])]\<rparr>"
      and renderTz = "''America/New_York''" and data = sampleReply
      and st0 = "initialState sampleToday"] b n
  show ?thesis by blast
qed

subsection \<open>Month navigation\<close>

lemma daysInMonth_ge: "1 \<le> daysInMonth y m"
  by (simp add: daysInMonth_def)

lemma setMonth_first:
  "setMonth k (setDate 1 d) =
     \<lparr>fullYear = fullYear d + k div 12, monthIndex = nat (k mod 12), dayOfMonth = 1\<rparr>"
  using daysInMonth_ge [of "fullYear d + k div 12" "nat (k mod 12)"]
  by (simp add: setMonth_def setDate_def Let_def)

lemma navigateMonth_currentMonth:
  "currentMonth (navigateMonth dir st) =
     setMonth (int (monthIndex (setDate 1 (currentMonth st))) + (if dir = Prev then - 1 else 1))
       (setDate 1 (currentMonth st))"
  unfolding navigateMonth_def Let_def
  by (simp split: list.splits split del: if_split)

lemma navigateMonth_month:
  "currentMonth (navigateMonth dir st) =
     \<lparr>fullYear = fullYear (currentMonth st)
                   + (int (monthIndex (currentMonth st)) + (if dir = Prev then - 1 else 1)) div 12,
      monthIndex = nat ((int (monthIndex (currentMonth st)) + (if dir = Prev then - 1 else 1)) mod 12),
      dayOfMonth = 1\<rparr>"
  unfolding navigateMonth_currentMonth setMonth_first
  by (simp add: setDate_def split del: if_split)

lemma navigateMonth_unfold:
  "navigateMonth dir st =
     (case sort (filter (\<lambda>d. startsWith d (monthPrefix (currentMonth (navigateMonth dir st)))
                                \<and> slotsAt (allSlots st) d \<noteq> []) (map fst (allSlots st))) of
        firstDate # _ \<Rightarrow>
          st\<lparr>currentMonth := currentMonth (navigateMonth dir st), selectedDate := firstDate,
             availableSlots := slotsAt (allSlots st) firstDate\<rparr>
      | [] \<Rightarrow> st\<lparr>currentMonth := currentMonth (navigateMonth dir st), selectedDate := [],
                 availableSlots := []\<rparr>)"
  unfolding navigateMonth_currentMonth
  unfolding navigateMonth_def Let_def
  by (simp split del: if_split cong: list.case_cong)

lemma toString_four_digits:
  assumes "1000 \<le> n" "n < 10000"
  shows "toString n = [digitChar (n div 1000), digitChar (n div 100), digitChar (n div 10),
                       digitChar n]"
proof -
  have a: "n div 1000 < 10" "n div 100 = n div 10 div 10" "n div 1000 = n div 10 div 10 div 10"
    using assms by (simp_all add: div_mult2_eq [symmetric])
  have "toString (n div 10 div 10 div 10) = [digitChar (n div 10 div 10 div 10)]"
    using a by (simp add: toString_one_digit)
  moreover have "\<not> n div 10 div 10 < 10" "\<not> n div 10 < 10" "\<not> n < 10"
    using assms by (simp_all add: div_mult2_eq [symmetric])
  ultimately have "toString n = [digitChar (n div 10 div 10 div 10), digitChar (n div 10 div 10),
                       digitChar (n div 10), digitChar n]"
    by (simp add: toString.simps [of n] toString.simps [of "n div 10"]
        toString.simps [of "n div 10 div 10"])
  then show ?thesis by (simp add: a)
qed

lemma monthPrefix_digits:
  assumes "1000 \<le> fullYear d" "fullYear d \<le> 9999" "monthIndex d < 12"
  shows "monthPrefix d =
     [digitChar (nat (fullYear d) div 1000), digitChar (nat (fullYear d) div 100),
      digitChar (nat (fullYear d) div 10), digitChar (nat (fullYear d)), CHR ''-'',
      digitChar ((monthIndex d + 1) div 10), digitChar (monthIndex d + 1), CHR ''-'']"
proof -
  have "toStringInt (fullYear d) = toString (nat (fullYear d))"
    using assms(1) by (simp add: toStringInt_def)
  moreover have "1000 \<le> nat (fullYear d)" "nat (fullYear d) < 10000"
    using assms(1,2) by simp_all
  moreover have "monthIndex d + 1 < 100"
    using assms(3) by simp
  ultimately show ?thesis
    by (simp add: monthPrefix_def Let_def toString_four_digits padStart2_toString)
qed

text \<open>
  C6. \<^verbatim>\<open>navigateMonth\<close> always lands on day 1 of the month next to the current one (the
  month count \<open>12 * year + month\<close> moves by exactly one, whatever the current day is).
  The target month's dates are those that start with \<open>target\<close>: the year of the new
  current month, a dash, its month number (index plus one) on two digits, and a dash; for
  a year of four digits these are the eight characters \<^verbatim>\<open>YYYY-MM-\<close>. With \<open>C\<close> the cached
  dates that start with \<open>target\<close> and have a slot list that is not empty: if there is one,
  the selected date is the least of them in the lexicographic order and its slots become
  the available slots; if there is none, the selected date and the available slots are
  cleared.
\<close>

theorem navigateMonth_first_available:
  fixes st :: state and dir :: direction
  defines "st' \<equiv> navigateMonth dir st"
  defines "year \<equiv> fullYear (currentMonth st')"
  defines "month \<equiv> monthIndex (currentMonth st') + 1"
  defines "target \<equiv> toStringInt year @ ''-'' @ padStart2 (toString month) @ ''-''"
  defines "C \<equiv> {d \<in> fst ` set (allSlots st).
                   startsWith d target \<and> slotsAt (allSlots st) d \<noteq> []}"
  shows "dayOfMonth (currentMonth st') = 1 \<and> monthIndex (currentMonth st') < 12
     \<and> fullYear (currentMonth st') * 12 + int (monthIndex (currentMonth st'))
         = fullYear (currentMonth st) * 12 + int (monthIndex (currentMonth st))
             + (if dir = Prev then - 1 else 1)
     \<and> (1000 \<le> year \<and> year \<le> 9999 \<longrightarrow>
           target = [digitChar (nat year div 1000), digitChar (nat year div 100),
                     digitChar (nat year div 10), digitChar (nat year), CHR ''-'',
                     digitChar (month div 10), digitChar month, CHR ''-''])
     \<and> (C \<noteq> {} \<longrightarrow> selectedDate st' \<in> C \<and> (\<forall>d\<in>C. selectedDate st' \<le> d)
            \<and> availableSlots st' = slotsAt (allSlots st) (selectedDate st'))
     \<and> (C = {} \<longrightarrow> selectedDate st' = [] \<and> availableSlots st' = [])"
proof -
  define cm where "cm = currentMonth st'"
  have mp: "monthPrefix cm = target"
    by (simp add: monthPrefix_def Let_def target_def year_def month_def cm_def)
  define cand where "cand = sort (filter (\<lambda>d. startsWith d (monthPrefix cm)
                                \<and> slotsAt (allSlots st) d \<noteq> []) (map fst (allSlots st)))"
  have st': "st' = (case cand of
           firstDate # _ \<Rightarrow>
             st\<lparr>currentMonth := cm, selectedDate := firstDate,
                availableSlots := slotsAt (allSlots st) firstDate\<rparr>
         | [] \<Rightarrow> st\<lparr>currentMonth := cm, selectedDate := [], availableSlots := []\<rparr>)"
    unfolding st'_def cand_def cm_def by (rule navigateMonth_unfold)
  have setC: "set cand = C"
    by (auto simp: cand_def C_def mp)
  have sorted: "sorted cand"
    by (simp add: cand_def)
  have month: "dayOfMonth (currentMonth st') = 1 \<and> monthIndex (currentMonth st') < 12
     \<and> fullYear (currentMonth st') * 12 + int (monthIndex (currentMonth st'))
         = fullYear (currentMonth st) * 12 + int (monthIndex (currentMonth st))
             + (if dir = Prev then - 1 else 1)"
  proof -
    let ?k = "int (monthIndex (currentMonth st)) + (if dir = Prev then - 1 else 1)"
    have "fullYear (currentMonth st') = fullYear (currentMonth st) + ?k div 12"
      and "int (monthIndex (currentMonth st')) = ?k mod 12"
      and "dayOfMonth (currentMonth st') = 1"
      unfolding st'_def navigateMonth_month by (simp_all split del: if_split)
    then show ?thesis
      by (simp add: algebra_simps split del: if_split)
  qed
  have digits: "target = [digitChar (nat year div 1000), digitChar (nat year div 100),
                     digitChar (nat year div 10), digitChar (nat year), CHR ''-'',
                     digitChar (month div 10), digitChar month, CHR ''-'']"
    if "1000 \<le> year \<and> year \<le> 9999"
  proof -
    from that month have "1000 \<le> fullYear cm" "fullYear cm \<le> 9999" "monthIndex cm < 12"
      by (simp_all add: year_def cm_def)
    from monthPrefix_digits [OF this] have "target =
       [digitChar (nat (fullYear cm) div 1000), digitChar (nat (fullYear cm) div 100),
        digitChar (nat (fullYear cm) div 10), digitChar (nat (fullYear cm)), CHR ''-'',
        digitChar ((monthIndex cm + 1) div 10), digitChar (monthIndex cm + 1), CHR ''-'']"
      by (simp only: mp)
    then show ?thesis
      by (simp only: year_def month_def cm_def)
  qed
  have some: "selectedDate st' \<in> C \<and> (\<forall>d\<in>C. selectedDate st' \<le> d)
            \<and> availableSlots st' = slotsAt (allSlots st) (selectedDate st')" if "C \<noteq> {}"
  proof -
    from that setC obtain f rest where c: "cand = f # rest"
      by (cases cand) auto
    with sorted have "\<forall>d\<in>set cand. f \<le> d" by auto
    moreover from c have "selectedDate st' = f"
      and "availableSlots st' = slotsAt (allSlots st) f"
      by (simp_all add: st')
    ultimately show ?thesis
      using c setC by auto
  qed
  have none: "selectedDate st' = [] \<and> availableSlots st' = []" if "C = {}"
  proof -
    from that setC have "cand = []" by simp
    then show ?thesis by (simp add: st')
  qed
  from month digits some none show ?thesis by blast
qed


theorem navigateMonth_first_available_witness:
  "currentMonth (navigateMonth Next sampleState)
     = \<lparr>fullYear = 2025, monthIndex = 1, dayOfMonth = 1\<rparr>
   \<and> selectedDate (navigateMonth Next sampleState) = ''2025-02-03''
   \<and> availableSlots (navigateMonth Next sampleState) = [sampleSlot]
   \<and> currentMonth (navigateMonth Prev sampleState)
     = \<lparr>fullYear = 2024, monthIndex = 11, dayOfMonth = 1\<rparr>
   \<and> selectedDate (navigateMonth Prev sampleState) = []
   \<and> availableSlots (navigateMonth Prev sampleState) = []"
proof -
  let ?N = "navigateMonth Next sampleState"
  let ?P = "navigateMonth Prev sampleState"
  have keys: "fst ` set (allSlots sampleState)
                = {''2025-02-10'', ''2025-02-03'', ''2025-02-01'', ''2025-01-31''}"
    by (simp add: sampleState_def)
  have cur: "fullYear (currentMonth sampleState) = 2025" "monthIndex (currentMonth sampleState) = 0"
    by (simp_all add: sampleState_def initialState_def)
  note n = navigateMonth_first_available [of Next sampleState]
  note p = navigateMonth_first_available [of Prev sampleState]
  have n1: "dayOfMonth (currentMonth ?N) = 1"
    by (rule n [THEN conjunct1])
  have n2: "monthIndex (currentMonth ?N) < 12"
    by (rule n [THEN conjunct2, THEN conjunct1])
  have n3: "fullYear (currentMonth ?N) * 12 + int (monthIndex (currentMonth ?N)) = 24301"
    using n [THEN conjunct2, THEN conjunct2, THEN conjunct1] by (simp add: cur)
  from n2 n3 have ny: "fullYear (currentMonth ?N) = 2025" and nm: "monthIndex (currentMonth ?N) = 1"
    by presburger+
  have p1: "dayOfMonth (currentMonth ?P) = 1"
    by (rule p [THEN conjunct1])
  have p2: "monthIndex (currentMonth ?P) < 12"
    by (rule p [THEN conjunct2, THEN conjunct1])
  have p3: "fullYear (currentMonth ?P) * 12 + int (monthIndex (currentMonth ?P)) = 24299"
    using p [THEN conjunct2, THEN conjunct2, THEN conjunct1] by (simp add: cur)
  from p2 p3 have py: "fullYear (currentMonth ?P) = 2024" and pm: "monthIndex (currentMonth ?P) = 11"
    by presburger+
  have tn: "toStringInt 2025 @ ''-'' @ padStart2 (toString (1 + 1)) @ ''-'' = ''2025-02-''"
    by code_simp
  have tp: "toStringInt 2024 @ ''-'' @ padStart2 (toString (11 + 1)) @ ''-'' = ''2024-12-''"
    by code_simp
  have Cn: "{d \<in> fst ` set (allSlots sampleState).
               startsWith d ''2025-02-'' \<and> slotsAt (allSlots sampleState) d \<noteq> []}
            = {''2025-02-10'', ''2025-02-03''}"
    unfolding keys by (auto simp: startsWith_def slotsAt_def sampleState_def)
  have Cp: "{d \<in> fst ` set (allSlots sampleState).
               startsWith d ''2024-12-'' \<and> slotsAt (allSlots sampleState) d \<noteq> []} = {}"
    unfolding keys by (auto simp: startsWith_def)
  have order: "\<not> ''2025-02-10'' \<le> ''2025-02-03''"
    by code_simp
  have sn: "selectedDate ?N \<in> {''2025-02-10'', ''2025-02-03''}
            \<and> (\<forall>d\<in>{''2025-02-10'', ''2025-02-03''}. selectedDate ?N \<le> d)
            \<and> availableSlots ?N = slotsAt (allSlots sampleState) (selectedDate ?N)"
    using n [THEN conjunct2, THEN conjunct2, THEN conjunct2, THEN conjunct2, THEN conjunct1]
    unfolding ny nm tn Cn by simp
  with order have seln: "selectedDate ?N = ''2025-02-03''"
    by auto
  with sn have avn: "availableSlots ?N = [sampleSlot]"
    by (simp add: slotsAt_def sampleState_def)
  have sp: "selectedDate ?P = [] \<and> availableSlots ?P = []"
    using p [THEN conjunct2, THEN conjunct2, THEN conjunct2, THEN conjunct2, THEN conjunct2]
    unfolding py pm tp Cp by simp
  have "currentMonth ?N = \<lparr>fullYear = 2025, monthIndex = 1, dayOfMonth = 1\<rparr>"
    using ny nm n1 by (cases "currentMonth ?N") simp
  moreover have "currentMonth ?P = \<lparr>fullYear = 2024, monthIndex = 11, dayOfMonth = 1\<rparr>"
    using py pm p1 by (cases "currentMonth ?P") simp
  ultimately show ?thesis
    using seln avn sp by simp
qed

subsection \<open>The timezone offset resolver\<close>

lemma wall_minutes:
  fixes w :: int
  shows "((w div 3600) mod 24) * 60 + (w div 60) mod 60 = (w div 60) mod 1440"
proof -
  have "w div 3600 = (w div 60) div 60"
    by (simp add: zdiv_zmult2_eq [of 60 w 60, symmetric])
  moreover have "(w div 60) mod 1440 = 60 * ((w div 60) div 60 mod 24) + (w div 60) mod 60"
    using zmod_zmult2_eq [of 24 "w div 60" 60] by simp
  ultimately show ?thesis by simp
qed

lemma clock_minutes:
  "hourOf rt w * 60 + minuteOf w =
     (w div 60) mod 1440 + (if hourCycle24 rt \<and> (w div 60) mod 1440 < 60 then 1440 else 0)"
proof -
  define h where "h = (w div 3600) mod 24"
  define mi where "mi = (w div 60) mod 60"
  define p where "p = (w div 60) mod 1440"
  have m: "0 \<le> mi" "mi < 60" "0 \<le> h"
    by (simp_all add: h_def mi_def)
  have sum: "h * 60 + mi = p"
    unfolding h_def mi_def p_def by (rule wall_minutes)
  have hour: "hourOf rt w = (if hourCycle24 rt \<and> h = 0 then 24 else h)"
    by (simp add: hourOf_def h_def Let_def)
  have small: "h = 0 \<longleftrightarrow> p < 60"
    using sum m by linarith
  have "hourOf rt w * 60 + mi = p + (if hourCycle24 rt \<and> p < 60 then 1440 else 0)"
  proof (cases "hourCycle24 rt \<and> h = 0")
    case True
    with sum small show ?thesis by (simp add: hour)
  next
    case False
    with sum small show ?thesis by (auto simp: hour)
  qed
  then show ?thesis
    by (simp add: minuteOf_def mi_def p_def)
qed

lemma offset_minutes_bounds:
  fixes u off :: int
  assumes "- 43140 \<le> off" "off \<le> 43140"
  shows "- 719 \<le> (u + off) div 60 - u div 60" and "(u + off) div 60 - u div 60 \<le> 719"
  using assms by linarith+

lemma normalise_difference:
  fixes A B p q e1 e2 :: int
  assumes "p = A mod 1440" "q = B mod 1440"
    and "e1 = 0 \<or> (e1 = 1440 \<and> p < 60)" "e2 = 0 \<or> (e2 = 1440 \<and> q < 60)"
    and "- 719 \<le> A - B" "A - B \<le> 719"
    and "diff = (p + e1) - (q + e2)"
    and "diff1 = (if diff > 12 * 60 then diff - 24 * 60 else diff)"
    and "diff2 = (if diff1 < - (12 * 60) then diff1 + 24 * 60 else diff1)"
  shows "diff2 = A - B"
proof -
  have A: "A = 1440 * (A div 1440) + p" and B: "B = 1440 * (B div 1440) + q"
    and p: "0 \<le> p" "p < 1440" and q: "0 \<le> q" "q < 1440"
    using assms(1,2) by simp_all
  define k where "k = A div 1440 - B div 1440"
  have D: "A - B = 1440 * k + (p - q)"
    using A B by (simp add: k_def algebra_simps)
  have "k = - 1 \<or> k = 0 \<or> k = 1"
    using D assms(5,6) p q by linarith
  then show ?thesis
    using D assms(3-9) p q by auto
qed


lemma getTimezoneOffset_recovers:
  assumes z: "zone rt tz = Some off" and lo: "- 43140 \<le> off t" and hi: "off t \<le> 43140"
  shows "getTimezoneOffset rt tz t
           = Some ((t div 1000 + off t) div 60 - (t div 1000) div 60)"
proof -
  define u where "u = t div 1000"
  define A where "A = (u + off t) div 60"
  define B where "B = u div 60"
  define e1 :: int where "e1 = (if hourCycle24 rt \<and> A mod 1440 < 60 then 1440 else 0)"
  define e2 :: int where "e2 = (if hourCycle24 rt \<and> B mod 1440 < 60 then 1440 else 0)"
  have tzc: "hourOf rt (u + off t) * 60 + minuteOf (u + off t) = A mod 1440 + e1"
    unfolding A_def e1_def by (rule clock_minutes)
  have utc: "hourOf rt u * 60 + minuteOf u = B mod 1440 + e2"
    unfolding B_def e2_def by (rule clock_minutes)
  have e: "e1 = 0 \<or> (e1 = 1440 \<and> A mod 1440 < 60)" "e2 = 0 \<or> (e2 = 1440 \<and> B mod 1440 < 60)"
    by (simp_all add: e1_def e2_def)
  have bounds: "- 719 \<le> A - B" "A - B \<le> 719"
    unfolding A_def B_def using lo hi by (rule offset_minutes_bounds)+
  define diff where "diff = (hourOf rt (u + off t) * 60 + minuteOf (u + off t))
                              - (hourOf rt u * 60 + minuteOf u)"
  define diff1 where "diff1 = (if diff > 12 * 60 then diff - 24 * 60 else diff)"
  define diff2 where "diff2 = (if diff1 < - (12 * 60) then diff1 + 24 * 60 else diff1)"
  have "getTimezoneOffset rt tz t = Some diff2"
    by (simp add: getTimezoneOffset_def z Let_def diff2_def diff1_def diff_def u_def)
  moreover have "diff = (A mod 1440 + e1) - (B mod 1440 + e2)"
    by (simp only: diff_def tzc utc)
  from normalise_difference [OF refl refl e bounds this diff1_def diff2_def]
  have "diff2 = (t div 1000 + off t) div 60 - (t div 1000) div 60"
    by (simp add: A_def B_def u_def)
  ultimately show ?thesis by simp
qed

text \<open>
  C7. For a timezone whose UTC offset at the instant lies between 11:59 behind and 11:59
  ahead, as the offsets of all supported zones do (they lie between 8 hours behind and 2
  hours ahead), \<^verbatim>\<open>getTimezoneOffset\<close> returns a whole number of minutes above \<open>-720\<close> and at
  most \<open>720\<close>: the difference between the wall-clock minute in the zone and in UTC. The
  result is a function of the runtime's timezone data, the zone and the instant alone, so
  equal arguments give equal results; it does not depend on how the runtime prints
  midnight.
\<close>

theorem getTimezoneOffset_range:
  assumes "zone rt tz = Some off" and "- 43140 \<le> off t" and "off t \<le> 43140"
  shows "\<exists>d. getTimezoneOffset rt tz t = Some d \<and> - 720 < d \<and> d \<le> 720
             \<and> d = (t div 1000 + off t) div 60 - (t div 1000) div 60"
  using getTimezoneOffset_recovers [OF assms]
    offset_minutes_bounds [OF assms(2,3), of "t div 1000"]
  by simp

theorem getTimezoneOffset_range_witness:
  "\<exists>d. getTimezoneOffset sampleRuntime ''America/New_York'' 1762207200000 = Some d
        \<and> - 720 < d \<and> d \<le> 720
        \<and> d = (1762207200000 div 1000 + (\<lambda>t. - 5 * 3600) 1762207200000) div 60
                - (1762207200000 div 1000) div 60"
proof -
  have z: "zone sampleRuntime ''America/New_York'' = Some (\<lambda>t. - 5 * 3600)"
    by (simp add: sampleRuntime_def sampleZone_def)
  have lo: "- 43140 \<le> (\<lambda>t::int. - 5 * 3600 :: int) 1762207200000"
    and hi: "(\<lambda>t::int. - 5 * 3600 :: int) 1762207200000 \<le> 43140"
    by simp_all
  show ?thesis
    by (rule getTimezoneOffset_range [OF z lo hi])
qed

subsection \<open>The New York scenario\<close>

lemma toTimeSlot_at_five_pm:
  assumes p: "dateParse rt ''2025-11-03T16:00:00-06:00'' = Some 1762207200000"
    and z: "zone rt ''America/New_York'' = Some off"
    and o: "off 1762207200000 = - 18000"
  shows "toTimeSlot rt ''America/New_York'' ''2025-11-03T16:00:00-06:00''
           = Some \<lparr>startTime = ''17:00:00'', endTime = ''17:00:00'', available = True,
                   originalGHLTime = Some ''2025-11-03T16:00:00-06:00''\<rparr>"
proof -
  have h: "hourOf rt 1762189200 = 17" "minuteOf 1762189200 = 0" "secondOf 1762189200 = 0"
    by (simp_all add: hourOf_def minuteOf_def secondOf_def)
  have s: "padStart2 (toString 17) = ''17''" "padStart2 (toString 0) = ''00''"
    by code_simp+
  have "toLocaleTime rt (Some 1762207200000) ''America/New_York'' = Some ''17:00:00''"
    by (simp add: toLocaleTime_def z o h s)
  moreover have "timePartOf ''17:00:00'' = ''17:00:00''"
    by code_simp
  ultimately show ?thesis
    by (simp add: toTimeSlot_def p Let_def)
qed

text \<open>
  C3, as the code has it. For the provider slot \<^verbatim>\<open>2025-11-03T16:00:00-06:00\<close>, read by the
  runtime as the instant 22:00 UTC of that day, and the viewer timezone
  \<^verbatim>\<open>America/New_York\<close> at five hours behind UTC, the slot's display start time is
  \<^verbatim>\<open>17:00:00\<close>, the display-side end time is \<^verbatim>\<open>17:45\<close> (hours and minutes, no seconds),
  and booking the slot sends the provider end timestamp \<^verbatim>\<open>2025-11-03T16:45:00-06:00\<close>.
\<close>

theorem new_york_scenario:
  assumes p: "dateParse rt ''2025-11-03T16:00:00-06:00'' = Some 1762207200000"
    and z: "zone rt ''America/New_York'' = Some off"
    and o: "off 1762207200000 = - 18000"
    and v: "validDate rt ''2025-11-03T16:45:00-06:00''"
    and c: "contactId \<noteq> []" and d: "selDate \<noteq> []"
  shows "\<exists>slot. toTimeSlot rt ''America/New_York'' ''2025-11-03T16:00:00-06:00'' = Some slot
           \<and> startTime slot = ''17:00:00''
           \<and> getEndTime (startTime slot) = Some ''17:45''
           \<and> handleBooking rt contactId bn mn sd selDate (startTime slot) [slot]
               = Submitted \<lparr>req_contactId = contactId,
                   req_startTime = ''2025-11-03T16:00:00-06:00'',
                   req_endTime = ''2025-11-03T16:45:00-06:00'',
                   req_title = ''Kickoff - '' @ bn,
                   req_description = ''Videollamada de kickoff con '' @ mn @ '' de '' @ bn,
                   req_surveyData = sd\<rparr>"
proof -
  let ?ts = "''2025-11-03T16:00:00-06:00''"
  let ?slot = "\<lparr>startTime = ''17:00:00'', endTime = ''17:00:00'', available = True,
                 originalGHLTime = Some ?ts\<rparr>"
  have slot: "toTimeSlot rt ''America/New_York'' ?ts = Some ?slot"
    by (rule toTimeSlot_at_five_pm [OF p z o])
  have e: "getEndTime ''17:00:00'' = Some ''17:45''"
    by code_simp
  have f: "find (\<lambda>slot. startTime slot = ''17:00:00'') [?slot] = Some ?slot"
    by simp
  have m: "ghlMatch ?ts = Some (''2025-11-03'', ''16'', ''00'', ''00'', ''-06:00'')"
    by code_simp
  have hh: "padStart2 (toString (((parseInt ''16'' * 60 + parseInt ''00'' + 45) div 60) mod 24))
              = ''16''"
    and mm: "padStart2 (toString ((parseInt ''16'' * 60 + parseInt ''00'' + 45) mod 60)) = ''45''"
    by code_simp+
  have vs: "validDate rt ?ts"
    by (simp add: validDate_def p)
  have t: "''17:00:00'' \<noteq> []"
    by simp
  have "handleBooking rt contactId bn mn sd selDate ''17:00:00'' [?slot]
               = Submitted \<lparr>req_contactId = contactId,
                   req_startTime = ?ts,
                   req_endTime = ''2025-11-03T16:45:00-06:00'',
                   req_title = ''Kickoff - '' @ bn,
                   req_description = ''Videollamada de kickoff con '' @ mn @ '' de '' @ bn,
                   req_surveyData = sd\<rparr>"
    unfolding handleBooking_reaches_slot [OF d t c f]
    by (simp add: m hh mm vs v)
  with slot e show ?thesis by simp
qed

theorem new_york_scenario_witness:
  "\<exists>slot. toTimeSlot sampleRuntime ''America/New_York'' ''2025-11-03T16:00:00-06:00'' = Some slot
           \<and> startTime slot = ''17:00:00''
           \<and> getEndTime (startTime slot) = Some ''17:45''
           \<and> handleBooking sampleRuntime ''c1'' ''Clinica'' ''Ana'' () ''2025-11-03''
                 (startTime slot) [slot]
               = Submitted \<lparr>req_contactId = ''c1'',
                   req_startTime = ''2025-11-03T16:00:00-06:00'',
                   req_endTime = ''2025-11-03T16:45:00-06:00'',
                   req_title = ''Kickoff - '' @ ''Clinica'',
                   req_description = ''Videollamada de kickoff con '' @ ''Ana'' @ '' de '' @ ''Clinica'',
                   req_surveyData = ()\<rparr>"
proof -
  have p: "dateParse sampleRuntime ''2025-11-03T16:00:00-06:00'' = Some 1762207200000"
    by code_simp
  have z: "zone sampleRuntime ''America/New_York'' = Some (\<lambda>t. - 5 * 3600)"
    by (simp add: sampleRuntime_def sampleZone_def)
  have o: "(\<lambda>t::int. - 5 * 3600 :: int) 1762207200000 = - 18000"
    by simp
  have v: "validDate sampleRuntime ''2025-11-03T16:45:00-06:00''"
    by code_simp
  have c: "''c1'' \<noteq> []" and d: "''2025-11-03'' \<noteq> []"
    by simp_all
  show ?thesis
    by (rule new_york_scenario [OF p z o v c d])
qed

text \<open>
  The claim's \<^verbatim>\<open>17:45:00\<close> is neither what \<^verbatim>\<open>getEndTime\<close> returns for the slot nor the
  slot's stored end time.
\<close>

theorem displayed_end_has_no_seconds:
  "getEndTime ''17:00:00'' \<noteq> Some ''17:45:00''
   \<and> map_option endTime
        (toTimeSlot sampleRuntime ''America/New_York'' ''2025-11-03T16:00:00-06:00'')
       \<noteq> Some ''17:45:00''"
  by code_simp

subsection \<open>A timezone change during a range fetch\<close>

text \<open>
  C1. The guard \<^verbatim>\<open>tzAtStart !== selectedTimezone\<close> compares two constants of the same
  render, so it never discards a reply. The session below starts a range fetch under
  \<^verbatim>\<open>America/Mexico_City\<close>, switches the viewer to \<^verbatim>\<open>America/New_York\<close> (which starts a second
  fetch) and then lets the replies arrive. The reply of the first fetch is stored whenever
  it arrives: straight after the switch (\<open>early\<close>), or after the reply of the second
  fetch (\<open>st4\<close>), where it replaces the New York times by Mexico City times while the
  selected timezone is New York.
\<close>

theorem stale_range_fetch_is_stored:
  "(case timezoneEffect ''America/Mexico_City''
           ((initialState sampleToday)\<lparr>selectedTimezone := ''America/Mexico_City''\<rparr>) of
      (st1, Some callA) \<Rightarrow>
        (case timezoneEffect ''America/New_York''
                (st1\<lparr>selectedTimezone := ''America/New_York''\<rparr>) of
           (st2, Some callB) \<Rightarrow>
             (let early = fetchAllAvailableSlots_resolve sampleRuntime callA (Json sampleReply) st2;
                  st3 = fetchAllAvailableSlots_resolve sampleRuntime callB (Json sampleReply) st2;
                  st4 = fetchAllAvailableSlots_resolve sampleRuntime callA (Json sampleReply) st3
              in tzAtStart callA = ''America/Mexico_City''
                 \<and> selectedTimezone st2 = ''America/New_York''
                 \<and> allSlots st2 = []
                 \<and> map startTime (slotsAt (allSlots early) ''2025-11-03'') = [''16:00:00'']
                 \<and> selectedTimezone early = ''America/New_York''
                 \<and> map startTime (slotsAt (allSlots st3) ''2025-11-03'') = [''17:00:00'']
                 \<and> map startTime (slotsAt (allSlots st4) ''2025-11-03'') = [''16:00:00'']
                 \<and> selectedTimezone st4 = ''America/New_York'')
         | _ \<Rightarrow> False)
    | _ \<Rightarrow> False)"
  by code_simp

end
